theory Spec2Isabelle
  imports Complex_Main "HOL-Library.Word"
begin

section \<open>Go values used by the client configuration\<close>

text \<open>
  Go's \<^verbatim>\<open>error\<close> interface: \<open>Errorf\<close> is an error built by \<^verbatim>\<open>fmt.Errorf\<close> in
  \<^verbatim>\<open>types/config.go\<close>, \<open>ExternalError\<close> an error handed back by a collaborator
  (the key store, the coin parser, the gRPC dialer) or by a caller-written option.
  A nil error is \<open>None\<close>.
\<close>

datatype error = Errorf string | ExternalError string

type_synonym uint64 = "64 word"

text \<open>
  Go's \<^verbatim>\<open>uint\<close> is 32 or 64 bits wide with the platform; the timeout is only compared
  with zero and stored, so the width does not matter. It is taken as 64 bits.
\<close>

type_synonym uint = "64 word"

text \<open>
  \<^verbatim>\<open>float64\<close>: only comparisons with zero are made on it, and IEEE 754 decides them
  exactly: NaN compares false with everything, the infinities and the finite values
  (both zeros are \<open>Finite 0\<close>) compare as the numbers they are.
\<close>

datatype float64 = NaN | NegInf | PosInf | Finite real

fun float64_le_zero :: "float64 \<Rightarrow> bool" where
  "float64_le_zero NaN = False"
| "float64_le_zero NegInf = True"
| "float64_le_zero PosInf = False"
| "float64_le_zero (Finite r) = (r \<le> 0)"

fun float64_gt_zero :: "float64 \<Rightarrow> bool" where
  "float64_gt_zero NaN = False"
| "float64_gt_zero NegInf = False"
| "float64_gt_zero PosInf = True"
| "float64_gt_zero (Finite r) = (0 < r)"

text \<open>
  \<^verbatim>\<open>DecCoins\<close> is a slice of coins: \<open>None\<close> is the nil slice. A \<^verbatim>\<open>Dec\<close> amount is kept
  as its scaled integer. The methods \<^verbatim>\<open>Empty\<close> and \<^verbatim>\<open>IsValid\<close> and the parser are
  collaborators declared outside the two source files; they are fields of \<open>Env\<close> below.
\<close>

record DecCoin =
  Denom :: string
  Amount :: int

type_synonym DecCoins = "DecCoin list option"

text \<open>Interface values: \<open>None\<close> is the nil interface.\<close>

datatype KeyDAO_impl = LevelDB string | CustomKeyDAO nat

type_synonym KeyDAO = "KeyDAO_impl option"

datatype TokenManager_impl = DefaultTokenManager | CustomTokenManager nat

type_synonym TokenManager = "TokenManager_impl option"

type_synonym KeyManager = "nat option"

type_synonym Crypto = "nat option"

type_synonym BroadcastMode = string

record AddrPrefixCfg =
  AccountAddr :: string
  ValidatorAddr :: string
  ConsensusAddr :: string
  AccountPub :: string
  ValidatorPub :: string
  ConsensusPub :: string

record BSNProjectInfo =
  ProjectId :: string
  ProjectKey :: string
  ChainAccountAddress :: string

record ClientConfig =
  NodeURI :: string
  GRPCAddr :: string
  ChainID :: string
  Gas :: uint64
  Fee :: DecCoins
  KeyDAO :: KeyDAO
  Algo :: string
  Mode :: BroadcastMode
  Timeout :: uint
  Level :: string
  MaxTxBytes :: uint64
  GasAdjustment :: float64
  Cached :: bool
  TokenManager :: TokenManager
  KeyManager :: KeyManager
  TxSizeLimit :: uint64
  Bech32AddressPrefix :: AddrPrefixCfg
  BIP44Path :: string
  BSNProject :: BSNProjectInfo

text \<open>
  What \<^verbatim>\<open>types/config.go\<close> calls but does not define: the coin methods and parser,
  \<^verbatim>\<open>os.ExpandEnv\<close>, \<^verbatim>\<open>store.NewLevelDB\<close> and the package variable \<^verbatim>\<open>PrefixCfg\<close>
  (the record the pointer refers to when the option runs). They are parameters of the
  model; nothing is assumed about them unless a theorem says so.
\<close>

record Env =
  ParseDecCoins :: "string \<Rightarrow> DecCoins \<times> error option"
  DecCoins_Empty :: "DecCoins \<Rightarrow> bool"
  DecCoins_IsValid :: "DecCoins \<Rightarrow> bool"
  ExpandEnv :: "string \<Rightarrow> string"
  NewLevelDB :: "string \<Rightarrow> Crypto \<Rightarrow> KeyDAO \<times> error option"
  PrefixCfg :: AddrPrefixCfg

subsection \<open>Constants\<close>

definition defaultGas :: uint64 where
  "defaultGas = 200000"

definition defaultFees :: string where
  "defaultFees = ''4iris''"

definition defaultTimeout :: uint where
  "defaultTimeout = 5"

definition defaultLevel :: string where
  "defaultLevel = ''info''"

definition defaultMaxTxsBytes :: uint64 where
  "defaultMaxTxsBytes = 1073741824"

definition defaultAlgo :: string where
  "defaultAlgo = ''secp256k1''"

text \<open>
  Modelled from the spec: the constant \<^verbatim>\<open>Sync\<close> of type \<^verbatim>\<open>BroadcastMode\<close> is declared
  outside the two source files; the spec names the broadcast modes sync, async and
  block-commit.
\<close>

definition Sync :: BroadcastMode where
  "Sync = ''sync''"

definition defaultMode :: BroadcastMode where
  "defaultMode = Sync"

definition defaultPath :: string where
  "defaultPath = ''$HOME/irishub-sdk-go/leveldb''"

definition defaultGasAdjustment :: float64 where
  "defaultGasAdjustment = Finite 1"

definition defaultTxSizeLimit :: uint64 where
  "defaultTxSizeLimit = 1048576"

definition BIP44Prefix :: string where
  "BIP44Prefix = ''44'/118'/''"

definition PartialPath :: string where
  "PartialPath = ''0'/0/0''"

definition FullPath :: string where
  "FullPath = BIP44Prefix @ PartialPath"

text \<open>The zero values \<^verbatim>\<open>AddrPrefixCfg{}\<close>, \<^verbatim>\<open>BSNProjectInfo{}\<close> and \<^verbatim>\<open>ClientConfig{}\<close>.\<close>

definition zeroAddrPrefixCfg :: AddrPrefixCfg where
  "zeroAddrPrefixCfg =
     \<lparr>AccountAddr = [], ValidatorAddr = [], ConsensusAddr = [],
      AccountPub = [], ValidatorPub = [], ConsensusPub = []\<rparr>"

definition zeroBSNProjectInfo :: BSNProjectInfo where
  "zeroBSNProjectInfo = \<lparr>ProjectId = [], ProjectKey = [], ChainAccountAddress = []\<rparr>"

definition zeroClientConfig :: ClientConfig where
  "zeroClientConfig =
     \<lparr>NodeURI = [], GRPCAddr = [], ChainID = [], Gas = 0, Fee = None, KeyDAO = None,
      Algo = [], Mode = [], Timeout = 0, Level = [], MaxTxBytes = 0,
      GasAdjustment = Finite 0, Cached = False, TokenManager = None, KeyManager = None,
      TxSizeLimit = 0, Bech32AddressPrefix = zeroAddrPrefixCfg, BIP44Path = [],
      BSNProject = zeroBSNProjectInfo\<rparr>"

section \<open>The options of \<^verbatim>\<open>types/config.go\<close>\<close>

text \<open>
  \<^verbatim>\<open>type Option func(cfg *ClientConfig) error\<close>: an option mutates the configuration
  it is given and returns an error or nil. The model returns the configuration as the
  option leaves it, and the error.
\<close>

type_synonym Option = "ClientConfig \<Rightarrow> ClientConfig \<times> error option"

definition FeeOption :: "Env \<Rightarrow> DecCoins \<Rightarrow> Option" where
  "FeeOption env fee cfg =
     (let fee = (if fee = None \<or> DecCoins_Empty env fee \<or> \<not> DecCoins_IsValid env fee
                 then fst (ParseDecCoins env defaultFees) else fee)
      in (cfg\<lparr>Fee := fee\<rparr>, None))"

definition KeyDAOOption :: "Env \<Rightarrow> KeyDAO \<Rightarrow> Option" where
  "KeyDAOOption env dao cfg =
     (if dao = None then
        (let (levelDB, err) = NewLevelDB env (ExpandEnv env defaultPath) None
         in if err \<noteq> None then (cfg, err) else (cfg\<lparr>KeyDAO := levelDB\<rparr>, None))
      else (cfg\<lparr>KeyDAO := dao\<rparr>, None))"

definition GasOption :: "uint64 \<Rightarrow> Option" where
  "GasOption gas cfg =
     (let gas = (if gas \<le> 0 then defaultGas else gas) in (cfg\<lparr>Gas := gas\<rparr>, None))"

definition AlgoOption :: "string \<Rightarrow> Option" where
  "AlgoOption algo cfg =
     (let algo = (if algo = [] then defaultAlgo else algo) in (cfg\<lparr>Algo := algo\<rparr>, None))"

definition ModeOption :: "BroadcastMode \<Rightarrow> Option" where
  "ModeOption mode cfg =
     (let mode = (if mode = [] then defaultMode else mode) in (cfg\<lparr>Mode := mode\<rparr>, None))"

definition TimeoutOption :: "uint \<Rightarrow> Option" where
  "TimeoutOption timeout cfg =
     (let timeout = (if timeout \<le> 0 then defaultTimeout else timeout)
      in (cfg\<lparr>Timeout := timeout\<rparr>, None))"

definition LevelOption :: "string \<Rightarrow> Option" where
  "LevelOption level cfg =
     (let level = (if level = [] then defaultLevel else level)
      in (cfg\<lparr>Level := level\<rparr>, None))"

definition MaxTxBytesOption :: "uint64 \<Rightarrow> Option" where
  "MaxTxBytesOption maxTxBytes cfg =
     (let maxTxBytes = (if maxTxBytes \<le> 0 then defaultMaxTxsBytes else maxTxBytes)
      in (cfg\<lparr>MaxTxBytes := maxTxBytes\<rparr>, None))"

definition GasAdjustmentOption :: "float64 \<Rightarrow> Option" where
  "GasAdjustmentOption gasAdjustment cfg =
     (let gasAdjustment =
            (if float64_le_zero gasAdjustment then defaultGasAdjustment else gasAdjustment)
      in (cfg\<lparr>GasAdjustment := gasAdjustment\<rparr>, None))"

definition CachedOption :: "bool \<Rightarrow> Option" where
  "CachedOption enabled cfg = (cfg\<lparr>Cached := enabled\<rparr>, None)"

definition TokenManagerOption :: "TokenManager \<Rightarrow> Option" where
  "TokenManagerOption tokenManager cfg =
     (let tokenManager =
            (if tokenManager = None then Some DefaultTokenManager else tokenManager)
      in (cfg\<lparr>TokenManager := tokenManager\<rparr>, None))"

definition TxSizeLimitOption :: "uint64 \<Rightarrow> Option" where
  "TxSizeLimitOption txSizeLimit cfg =
     (let txSizeLimit = (if txSizeLimit \<le> 0 then defaultTxSizeLimit else txSizeLimit)
      in (cfg\<lparr>TxSizeLimit := txSizeLimit\<rparr>, None))"

definition KeyManagerOption :: "KeyManager \<Rightarrow> Option" where
  "KeyManagerOption keyManager cfg = (cfg\<lparr>KeyManager := keyManager\<rparr>, None)"

definition Bech32AddressPrefixOption :: "Env \<Rightarrow> AddrPrefixCfg \<Rightarrow> Option" where
  "Bech32AddressPrefixOption env bech32AddressPrefix cfg =
     (let p1 = (if AccountAddr bech32AddressPrefix = [] \<or>
                   ValidatorAddr bech32AddressPrefix = [] \<or>
                   ConsensusAddr bech32AddressPrefix = []
                then PrefixCfg env else bech32AddressPrefix);
          p2 = (if AccountPub p1 = [] \<or> ValidatorPub p1 = [] \<or> ConsensusPub p1 = []
                then PrefixCfg env else p1)
      in (cfg\<lparr>Bech32AddressPrefix := p2\<rparr>, None))"

definition BIP44PathOption :: "string \<Rightarrow> Option" where
  "BIP44PathOption bIP44Path cfg =
     (let bIP44Path = (if bIP44Path = [] then FullPath else bIP44Path)
      in (cfg\<lparr>BIP44Path := bIP44Path\<rparr>, None))"

definition BSNProjectInfoOption :: "BSNProjectInfo \<Rightarrow> Option" where
  "BSNProjectInfoOption info cfg =
     (let cfg1 = cfg\<lparr>BSNProject := (BSNProject cfg)\<lparr>ProjectId := ProjectId info\<rparr>\<rparr>;
          cfg2 = cfg1\<lparr>BSNProject := (BSNProject cfg1)\<lparr>ProjectKey := ProjectKey info\<rparr>\<rparr>;
          cfg3 = cfg2\<lparr>BSNProject :=
                   (BSNProject cfg2)\<lparr>ChainAccountAddress := ChainAccountAddress info\<rparr>\<rparr>
      in (cfg3, None))"

section \<open>The defaulting pass and the constructor\<close>

definition checkAndSetDefault :: "Env \<Rightarrow> ClientConfig \<Rightarrow> ClientConfig \<times> error option" where
  "checkAndSetDefault env cfg =
     (if length (NodeURI cfg) = 0 then (cfg, Some (Errorf ''nodeURI is required''))
      else if length (ChainID cfg) = 0 then (cfg, Some (Errorf ''chainID is required''))
      else
        let (cfg, err) = GasOption (Gas cfg) cfg in if err \<noteq> None then (cfg, err) else
        let (cfg, err) = FeeOption env (Fee cfg) cfg in if err \<noteq> None then (cfg, err) else
        let (cfg, err) = AlgoOption (Algo cfg) cfg in if err \<noteq> None then (cfg, err) else
        let (cfg, err) = KeyDAOOption env (KeyDAO cfg) cfg in if err \<noteq> None then (cfg, err) else
        let (cfg, err) = ModeOption (Mode cfg) cfg in if err \<noteq> None then (cfg, err) else
        let (cfg, err) = TimeoutOption (Timeout cfg) cfg in if err \<noteq> None then (cfg, err) else
        let (cfg, err) = LevelOption (Level cfg) cfg in if err \<noteq> None then (cfg, err) else
        let (cfg, err) = MaxTxBytesOption (MaxTxBytes cfg) cfg in if err \<noteq> None then (cfg, err) else
        let (cfg, err) = TokenManagerOption (TokenManager cfg) cfg in if err \<noteq> None then (cfg, err) else
        let (cfg, err) = TxSizeLimitOption (TxSizeLimit cfg) cfg in if err \<noteq> None then (cfg, err) else
        let (cfg, err) = Bech32AddressPrefixOption env (Bech32AddressPrefix cfg) cfg in
          if err \<noteq> None then (cfg, err) else
        let (cfg, err) = BIP44PathOption (BIP44Path cfg) cfg in if err \<noteq> None then (cfg, err) else
        let (cfg, err) = BSNProjectInfoOption (BSNProject cfg) cfg in if err \<noteq> None then (cfg, err) else
        GasAdjustmentOption (GasAdjustment cfg) cfg)"

text \<open>The loop over the options: the first error ends it.\<close>

fun applyOptions :: "Option list \<Rightarrow> ClientConfig \<Rightarrow> ClientConfig \<times> error option" where
  "applyOptions [] cfg = (cfg, None)"
| "applyOptions (optionFn # options) cfg =
     (let (cfg', err) = optionFn cfg
      in if err \<noteq> None then (cfg', err) else applyOptions options cfg')"

text \<open>The struct literal \<^verbatim>\<open>ClientConfig{NodeURI: uri, ChainID: chainID, GRPCAddr: grpcAddr}\<close>.\<close>

definition initialConfig :: "string \<Rightarrow> string \<Rightarrow> string \<Rightarrow> ClientConfig" where
  "initialConfig uri grpcAddr chainID =
     zeroClientConfig\<lparr>NodeURI := uri, ChainID := chainID, GRPCAddr := grpcAddr\<rparr>"

definition NewClientConfig ::
  "Env \<Rightarrow> string \<Rightarrow> string \<Rightarrow> string \<Rightarrow> Option list \<Rightarrow> ClientConfig \<times> error option" where
  "NewClientConfig env uri grpcAddr chainID options =
     (let cfg = initialConfig uri grpcAddr chainID
      in let (cfg, err) = applyOptions options cfg
         in if err \<noteq> None then (zeroClientConfig, err)
            else let (cfg, err) = checkAndSetDefault env cfg
                 in if err \<noteq> None then (zeroClientConfig, err) else (cfg, None))"

section \<open>The shared gRPC connection of \<^verbatim>\<open>client/grpc_client.go\<close>\<close>

record Token =
  projectId :: string
  projectKey :: string
  chainAccountAddr :: string

definition projectIdHeader :: string where
  "projectIdHeader = ''projectId''"

definition projectKeyHeader :: string where
  "projectKeyHeader = ''projectKey''"

definition chainAccountAddressHeader :: string where
  "chainAccountAddressHeader = ''chainAccountAddress''"

text \<open>The context and the URIs are not read.\<close>

definition GetRequestMetadata ::
  "Token \<Rightarrow> 'ctx \<Rightarrow> string list \<Rightarrow> (string \<rightharpoonup> string) \<times> error option" where
  "GetRequestMetadata t ctx uri =
     ([projectIdHeader \<mapsto> projectId t, projectKeyHeader \<mapsto> projectKey t,
       chainAccountAddressHeader \<mapsto> chainAccountAddr t], None)"

definition RequireTransportSecurity :: "Token \<Rightarrow> bool" where
  "RequireTransportSecurity t = True"

text \<open>
  The gRPC library as the file uses it. A connection is what \<^verbatim>\<open>grpc.Dial\<close> was given:
  the target and the dial options. Connections live in a store, and a
  \<^verbatim>\<open>*grpc.ClientConn\<close> is an address in it (\<open>None\<close> is nil), so that two handles are the
  same connection exactly when the addresses are equal. What a dial returns is a
  parameter: \<open>dialer n target opts\<close> is the error that \<^verbatim>\<open>grpc.Dial\<close> returns for the
  dial made after \<open>n\<close> earlier attempts, or \<open>None\<close> when it returns a connection.
\<close>

datatype DialOption = WithInsecure | WithPerRPCCredentials Token

record ClientConn =
  target :: string
  dopts :: "DialOption list"

type_synonym Dialer = "nat \<Rightarrow> string \<Rightarrow> DialOption list \<Rightarrow> error option"

text \<open>
  \<^verbatim>\<open>grpc.Dial\<close> is code of the gRPC library, not of this repository. Before it uses
  the network it checks the dial options it was given (in \<^verbatim>\<open>DialContext\<close>): when no
  transport security is set, which for the two options the file uses means that
  \<^verbatim>\<open>WithInsecure\<close> is absent, it returns \<open>errNoTransportSecurity\<close>; when the connection
  is insecure and one of the per-RPC credentials answers true to
  \<open>RequireTransportSecurity\<close>, it returns \<open>errTransportCredentialsMissing\<close>. Only then
  does the network decide. \<open>checkedDialer network\<close> is the dialer that the library is
  over a given network.
\<close>

definition errNoTransportSecurity :: error where
  "errNoTransportSecurity =
     ExternalError
       ''grpc: no transport security set (use grpc.WithInsecure() explicitly or set credentials)''"

definition errTransportCredentialsMissing :: error where
  "errTransportCredentialsMissing =
     ExternalError
       ''grpc: the credentials require transport level security (use grpc.WithTransportCredentials() to set)''"

fun requiresTransportSecurity :: "DialOption \<Rightarrow> bool" where
  "requiresTransportSecurity WithInsecure = False"
| "requiresTransportSecurity (WithPerRPCCredentials t) = RequireTransportSecurity t"

definition checkedDialer :: "Dialer \<Rightarrow> Dialer" where
  "checkedDialer network n url opts =
     (if \<not> List.member opts WithInsecure then Some errNoTransportSecurity
      else if list_ex requiresTransportSecurity opts then Some errTransportCredentialsMissing
      else network n url opts)"

text \<open>
  The process state: the two package variables, the store of connections, the number of
  calls of \<^verbatim>\<open>grpc.Dial\<close> made so far, and what \<^verbatim>\<open>log.Error\<close> has written.
  \<open>once\<close> is the done flag of the \<^verbatim>\<open>sync.Once\<close>.
\<close>

record Process =
  clientConnSingleton :: "nat option"
  once :: bool
  conns :: "ClientConn list"
  dialAttempts :: nat
  errorLog :: "string list"

definition initialProcess :: Process where
  "initialProcess =
     \<lparr>clientConnSingleton = None, once = False, conns = [], dialAttempts = 0, errorLog = []\<rparr>"

datatype 'a outcome = Returned 'a | Panicked error

datatype grpcClient = GrpcClient

fun Error :: "error \<Rightarrow> string" where
  "Error (Errorf msg) = msg"
| "Error (ExternalError msg) = msg"

definition grpc_Dial ::
  "Dialer \<Rightarrow> string \<Rightarrow> DialOption list \<Rightarrow> Process \<Rightarrow> (nat option \<times> error option) \<times> Process" where
  "grpc_Dial dialer url opts s =
     (let s1 = s\<lparr>dialAttempts := dialAttempts s + 1\<rparr>
      in case dialer (dialAttempts s) url opts of
           Some err \<Rightarrow> ((None, Some err), s1)
         | None \<Rightarrow>
             ((Some (length (conns s1)), None),
              s1\<lparr>conns := conns s1 @ [\<lparr>target = url, dopts = opts\<rparr>]\<rparr>))"

text \<open>
  \<^verbatim>\<open>once.Do(f)\<close>: \<open>f\<close> runs only when the flag is not set, and the flag is set when \<open>f\<close>
  returns and also when it panics (Go: ``if f panics, Do considers it to have returned;
  future calls of Do return without calling f'').
\<close>

definition once_Do ::
  "(Process \<Rightarrow> unit outcome \<times> Process) \<Rightarrow> Process \<Rightarrow> unit outcome \<times> Process" where
  "once_Do f s =
     (if once s then (Returned (), s)
      else let (r, s') = f s in (r, s'\<lparr>once := True\<rparr>))"

definition NewGRPCClient ::
  "Dialer \<Rightarrow> string \<Rightarrow> BSNProjectInfo \<Rightarrow> Process \<Rightarrow> grpcClient outcome \<times> Process" where
  "NewGRPCClient dialer url info s =
     (let (r, s') =
            once_Do
              (\<lambda>s. let token = \<lparr>projectId = ProjectId info, projectKey = ProjectKey info,
                                 chainAccountAddr = ChainAccountAddress info\<rparr>;
                        dialOpts = [WithInsecure, WithPerRPCCredentials token];
                        ((clientConn, err), s) = grpc_Dial dialer url dialOpts s
                    in case err of
                         Some e \<Rightarrow> (Panicked e, s\<lparr>errorLog := errorLog s @ [Error e]\<rparr>)
                       | None \<Rightarrow> (Returned (), s\<lparr>clientConnSingleton := clientConn\<rparr>))
              s
      in case r of
           Panicked e \<Rightarrow> (Panicked e, s')
         | Returned u \<Rightarrow> (Returned GrpcClient, s'))"

definition GenConn :: "grpcClient \<Rightarrow> Process \<Rightarrow> nat option \<times> error option" where
  "GenConn g s = (clientConnSingleton s, None)"

text \<open>
  Calls of \<open>NewGRPCClient\<close> made one after the other, each with its own URL and identity;
  a caller that recovers from the panic lets the process go on.
\<close>

fun bootstrapCalls :: "Dialer \<Rightarrow> (string \<times> BSNProjectInfo) list \<Rightarrow> Process \<Rightarrow> Process" where
  "bootstrapCalls dialer [] s = s"
| "bootstrapCalls dialer ((url, info) # calls) s =
     bootstrapCalls dialer calls (snd (NewGRPCClient dialer url info s))"

text \<open>The credential providers attached to the connection a handle refers to.\<close>

definition perRPCCredentials :: "Process \<Rightarrow> nat option \<Rightarrow> Token list" where
  "perRPCCredentials s handle =
     (case handle of
        None \<Rightarrow> []
      | Some addr \<Rightarrow>
          if addr < length (conns s)
          then concat (map (\<lambda>opt. case opt of WithPerRPCCredentials t \<Rightarrow> [t] | WithInsecure \<Rightarrow> [])
                 (dopts (conns s ! addr)))
          else [])"

subsection \<open>Concurrent callers\<close>

text \<open>
  Where a caller of \<open>NewGRPCClient\<close> followed by \<open>GenConn\<close> stands. \<open>Calling\<close>: before
  \<^verbatim>\<open>once.Do\<close>; \<open>Waiting\<close>: the flag was read unset, the caller waits for the mutex of the
  \<^verbatim>\<open>sync.Once\<close>; \<open>Dialing\<close>: it holds the mutex and runs the body, before \<^verbatim>\<open>grpc.Dial\<close>;
  \<open>Dialed\<close>: the dial has returned; \<open>Stored\<close>: \<open>clientConnSingleton\<close> is assigned;
  \<open>Failing\<close>: the error is logged and the body panics; \<open>Finishing\<close>: the flag is set, the
  mutex still held; \<open>HasClient\<close>: \<open>NewGRPCClient\<close> has returned; \<open>Crashed\<close>: it has
  panicked; \<open>GotConn\<close>: \<open>GenConn\<close> has returned this handle.
\<close>

datatype pc =
    Calling
  | Waiting
  | Dialing
  | Dialed "nat option" "error option"
  | Stored
  | Failing error
  | Finishing "error option"
  | HasClient
  | Crashed error
  | GotConn "nat option"

text \<open>
  The callers, the process state they share and the mutex of the \<^verbatim>\<open>sync.Once\<close>, which
  here remembers its holder (nothing but the proofs reads who holds it). \<open>exited\<close>: the
  process has ended with a panic that no caller recovered from.
\<close>

record Goroutines =
  callers :: "nat \<Rightarrow> pc"
  shared :: Process
  mutex :: "nat option"
  exited :: bool

definition initialGoroutines :: Goroutines where
  "initialGoroutines =
     \<lparr>callers = (\<lambda>i. Calling), shared = initialProcess, mutex = None, exited = False\<rparr>"

text \<open>
  One step of caller \<open>i\<close>, or \<open>None\<close> when it cannot move (the process has ended, it
  waits for a held mutex, or it has finished). The steps follow \<^verbatim>\<open>func (o *Once) Do(f)\<close>
  of Go's \<^verbatim>\<open>sync\<close> package: read the flag and return when it is set; otherwise lock the
  mutex, read the flag again, run \<open>f\<close> when it is still unset, then (deferred, so also
  when \<open>f\<close> panics) set the flag and unlock. The body of \<open>f\<close> is the one of
  \<open>NewGRPCClient\<close>, cut where another caller can run in between. Every step is atomic
  and memory is sequentially consistent.

  The file has no \<^verbatim>\<open>recover\<close>. What becomes of a panic that leaves \<open>NewGRPCClient\<close> is
  up to the callers, which are not part of the file: \<open>recovered\<close> says whether they
  recover from it. If they do not, the process ends when the panic leaves the call, and no
  caller moves any more.
\<close>

definition advance ::
  "bool \<Rightarrow> Dialer \<Rightarrow> string \<Rightarrow> (nat \<Rightarrow> BSNProjectInfo) \<Rightarrow> nat \<Rightarrow> Goroutines \<Rightarrow>
   Goroutines option" where
  "advance recovered dialer url ident i g =
     (if exited g then None
      else case callers g i of
        Calling \<Rightarrow>
          Some (if once (shared g) then g\<lparr>callers := (callers g)(i := HasClient)\<rparr>
                else g\<lparr>callers := (callers g)(i := Waiting)\<rparr>)
      | Waiting \<Rightarrow>
          if mutex g \<noteq> None then None
          else Some (if once (shared g) then g\<lparr>callers := (callers g)(i := HasClient)\<rparr>
                     else g\<lparr>callers := (callers g)(i := Dialing), mutex := Some i\<rparr>)
      | Dialing \<Rightarrow>
          (let token = \<lparr>projectId = ProjectId (ident i), projectKey = ProjectKey (ident i),
                         chainAccountAddr = ChainAccountAddress (ident i)\<rparr>;
               dialOpts = [WithInsecure, WithPerRPCCredentials token];
               ((clientConn, err), s) = grpc_Dial dialer url dialOpts (shared g)
           in Some (g\<lparr>callers := (callers g)(i := Dialed clientConn err), shared := s\<rparr>))
      | Dialed clientConn err \<Rightarrow>
          (case err of
             Some e \<Rightarrow>
               Some (g\<lparr>callers := (callers g)(i := Failing e),
                       shared := (shared g)\<lparr>errorLog := errorLog (shared g) @ [Error e]\<rparr>\<rparr>)
           | None \<Rightarrow>
               Some (g\<lparr>callers := (callers g)(i := Stored),
                       shared := (shared g)\<lparr>clientConnSingleton := clientConn\<rparr>\<rparr>))
      | Stored \<Rightarrow>
          Some (g\<lparr>callers := (callers g)(i := Finishing None),
                  shared := (shared g)\<lparr>once := True\<rparr>\<rparr>)
      | Failing e \<Rightarrow>
          Some (g\<lparr>callers := (callers g)(i := Finishing (Some e)),
                  shared := (shared g)\<lparr>once := True\<rparr>\<rparr>)
      | Finishing panic \<Rightarrow>
          (case panic of
             None \<Rightarrow> Some (g\<lparr>callers := (callers g)(i := HasClient), mutex := None\<rparr>)
           | Some e \<Rightarrow>
               Some (g\<lparr>callers := (callers g)(i := Crashed e), mutex := None,
                       exited := \<not> recovered\<rparr>))
      | HasClient \<Rightarrow>
          Some (g\<lparr>callers := (callers g)(i := GotConn (fst (GenConn GrpcClient (shared g))))\<rparr>)
      | Crashed e \<Rightarrow> None
      | GotConn handle \<Rightarrow> None)"

text \<open>The states that \<open>K\<close> callers of the same URL reach, in any interleaving.\<close>

inductive reachable ::
  "bool \<Rightarrow> Dialer \<Rightarrow> nat \<Rightarrow> string \<Rightarrow> (nat \<Rightarrow> BSNProjectInfo) \<Rightarrow> Goroutines \<Rightarrow> bool"
  for recovered :: bool and dialer :: Dialer and K :: nat and url :: string
    and ident :: "nat \<Rightarrow> BSNProjectInfo" where
  start: "reachable recovered dialer K url ident initialGoroutines"
| move: "reachable recovered dialer K url ident g \<Longrightarrow> i < K \<Longrightarrow>
         advance recovered dialer url ident i g = Some g' \<Longrightarrow>
         reachable recovered dialer K url ident g'"

text \<open>Classes of program counters, for the invariants.\<close>

fun inBody :: "pc \<Rightarrow> bool" where
  "inBody Dialing = True"
| "inBody (Dialed clientConn err) = True"
| "inBody Stored = True"
| "inBody (Failing e) = True"
| "inBody (Finishing panic) = True"
| "inBody p = False"

fun beforeDone :: "pc \<Rightarrow> bool" where
  "beforeDone Dialing = True"
| "beforeDone (Dialed clientConn err) = True"
| "beforeDone Stored = True"
| "beforeDone (Failing e) = True"
| "beforeDone p = False"

fun afterDial :: "pc \<Rightarrow> bool" where
  "afterDial (Dialed clientConn err) = True"
| "afterDial Stored = True"
| "afterDial (Failing e) = True"
| "afterDial p = False"

fun pastOnce :: "pc \<Rightarrow> bool" where
  "pastOnce (Finishing panic) = True"
| "pastOnce HasClient = True"
| "pastOnce (Crashed e) = True"
| "pastOnce (GotConn handle) = True"
| "pastOnce p = False"

fun finished :: "pc \<Rightarrow> bool" where
  "finished (Crashed e) = True"
| "finished (GotConn handle) = True"
| "finished p = False"

text \<open>
  Where a caller can stand when the dial was rejected with
  \<open>errTransportCredentialsMissing\<close>: the dial has returned no connection and that error,
  nothing is stored, and the body ends in a panic with that error.
\<close>

fun rejected :: "pc \<Rightarrow> bool" where
  "rejected (Dialed clientConn err) =
     (clientConn = None \<and> err = Some errTransportCredentialsMissing)"
| "rejected Stored = False"
| "rejected (Failing e) = (e = errTransportCredentialsMissing)"
| "rejected (Finishing panic) = (panic = Some errTransportCredentialsMissing)"
| "rejected (Crashed e) = (e = errTransportCredentialsMissing)"
| "rejected p = True"

text \<open>The caller is in the body, or has left it with a panic.\<close>

fun ranBody :: "pc \<Rightarrow> bool" where
  "ranBody Dialing = True"
| "ranBody (Dialed clientConn err) = True"
| "ranBody Stored = True"
| "ranBody (Failing e) = True"
| "ranBody (Finishing panic) = True"
| "ranBody (Crashed e) = True"
| "ranBody p = False"

text \<open>The caller has run the body to its panic.\<close>

fun panicking :: "pc \<Rightarrow> bool" where
  "panicking (Finishing panic) = (panic \<noteq> None)"
| "panicking (Crashed e) = True"
| "panicking p = False"

text \<open>A run under a schedule: the caller named next moves if it can.\<close>

fun run ::
  "bool \<Rightarrow> Dialer \<Rightarrow> string \<Rightarrow> (nat \<Rightarrow> BSNProjectInfo) \<Rightarrow> nat list \<Rightarrow> Goroutines \<Rightarrow> Goroutines" where
  "run recovered dialer url ident [] g = g"
| "run recovered dialer url ident (i # schedule) g =
     (case advance recovered dialer url ident i g of
        None \<Rightarrow> run recovered dialer url ident schedule g
      | Some g' \<Rightarrow> run recovered dialer url ident schedule g')"

text \<open>
  What holds in every reachable state: the mutex is held exactly by the caller that is in
  the body; the flag is unset while the body runs and set once a caller has left
  \<^verbatim>\<open>once.Do\<close>; the number of dials is one when the flag is set or the holder has dialed,
  and zero before; a handle returned by \<open>GenConn\<close> is the shared pointer.
\<close>

definition onceInvariant :: "nat \<Rightarrow> Goroutines \<Rightarrow> bool" where
  "onceInvariant K g \<longleftrightarrow>
     (\<forall>i. mutex g = Some i \<longrightarrow> i < K) \<and>
     (\<forall>i. inBody (callers g i) \<longleftrightarrow> mutex g = Some i) \<and>
     (\<forall>i. beforeDone (callers g i) \<longrightarrow> \<not> once (shared g)) \<and>
     (\<forall>i. pastOnce (callers g i) \<longrightarrow> once (shared g)) \<and>
     dialAttempts (shared g) =
       (if once (shared g) then 1
        else case mutex g of None \<Rightarrow> 0 | Some h \<Rightarrow> if afterDial (callers g h) then 1 else 0) \<and>
     (dialAttempts (shared g) = 0 \<longrightarrow> conns (shared g) = []) \<and>
     (\<forall>i handle. callers g i = GotConn handle \<longrightarrow> handle = clientConnSingleton (shared g))"

text \<open>
  What holds in addition when the dialer is the library's: every caller stands where a
  rejected dial lets it stand, no connection exists, the shared pointer is nil; one caller
  at most runs the body; once the flag is set, one of the callers has run the body to its
  panic; and the process has ended only if the panic is not recovered from and a caller
  has left the call with it.
\<close>

definition rejectedInvariant :: "bool \<Rightarrow> nat \<Rightarrow> Goroutines \<Rightarrow> bool" where
  "rejectedInvariant recovered K g \<longleftrightarrow>
     (\<forall>i. rejected (callers g i)) \<and>
     conns (shared g) = [] \<and>
     clientConnSingleton (shared g) = None \<and>
     (\<forall>i j. ranBody (callers g i) \<longrightarrow> ranBody (callers g j) \<longrightarrow> i = j) \<and>
     (once (shared g) \<longrightarrow> (\<exists>i<K. panicking (callers g i))) \<and>
     (exited g \<longrightarrow> \<not> recovered \<and> (\<exists>i<K. callers g i = Crashed errTransportCredentialsMissing))"

text \<open>A bound on the steps a caller still makes; every step lowers the sum.\<close>

fun stepsLeft :: "pc \<Rightarrow> nat" where
  "stepsLeft Calling = 7"
| "stepsLeft Waiting = 6"
| "stepsLeft Dialing = 5"
| "stepsLeft (Dialed clientConn err) = 4"
| "stepsLeft Stored = 3"
| "stepsLeft (Failing e) = 3"
| "stepsLeft (Finishing panic) = 2"
| "stepsLeft HasClient = 1"
| "stepsLeft (Crashed e) = 0"
| "stepsLeft (GotConn handle) = 0"

definition remaining :: "nat \<Rightarrow> Goroutines \<Rightarrow> nat" where
  "remaining K g = (\<Sum>i<K. stepsLeft (callers g i))"

section \<open>Vocabulary of the properties\<close>

text \<open>
  The spec's error class MissingRequiredField: the two errors \<open>checkAndSetDefault\<close>
  builds for an empty node URI and an empty chain id.
\<close>

definition MissingRequiredField :: "error \<Rightarrow> bool" where
  "MissingRequiredField err \<longleftrightarrow>
     err = Errorf ''nodeURI is required'' \<or> err = Errorf ''chainID is required''"

text \<open>
  An option list may hold any function of the option type, not only the options above.
  \<open>leaves field optionFn\<close>: the option never changes that field.
  \<open>independentOf upd optionFn\<close>, for the update function \<open>upd\<close> of a field: the option
  neither writes nor reads the field (running it commutes with setting the field).
\<close>

definition leaves :: "(ClientConfig \<Rightarrow> 'a) \<Rightarrow> Option \<Rightarrow> bool" where
  "leaves field optionFn \<longleftrightarrow> (\<forall>cfg. field (fst (optionFn cfg)) = field cfg)"

definition independentOf ::
  "(('a \<Rightarrow> 'a) \<Rightarrow> ClientConfig \<Rightarrow> ClientConfig) \<Rightarrow> Option \<Rightarrow> bool" where
  "independentOf upd optionFn \<longleftrightarrow>
     (\<forall>cfg a. optionFn (upd (\<lambda>_. a) cfg) = (upd (\<lambda>_. a) (fst (optionFn cfg)), snd (optionFn cfg)))"

text \<open>
  \<open>falsyOptionFor env optionFn indep atDefault\<close>: \<open>optionFn\<close> is one of the options above,
  called with a value its own test takes for unset (zero, empty, nil, non-positive,
  invalid or incomplete); \<open>indep\<close> says of another option that it is independent of the
  field \<open>optionFn\<close> owns; \<open>atDefault\<close> says of a configuration that this field holds its
  built-in default (the zero value for the three fields that have no default).
\<close>

inductive falsyOptionFor ::
  "Env \<Rightarrow> Option \<Rightarrow> (Option \<Rightarrow> bool) \<Rightarrow> (ClientConfig \<Rightarrow> bool) \<Rightarrow> bool"
  for env :: Env where
  falsyGas: "gas \<le> 0 \<Longrightarrow>
     falsyOptionFor env (GasOption gas) (independentOf Gas_update)
       (\<lambda>cfg. Gas cfg = defaultGas)"
| falsyFee: "fee = None \<or> DecCoins_Empty env fee \<or> \<not> DecCoins_IsValid env fee \<Longrightarrow>
     falsyOptionFor env (FeeOption env fee) (independentOf Fee_update)
       (\<lambda>cfg. Fee cfg = fst (ParseDecCoins env defaultFees))"
| falsyAlgo:
    "falsyOptionFor env (AlgoOption []) (independentOf Algo_update)
       (\<lambda>cfg. Algo cfg = defaultAlgo)"
| falsyKeyDAO:
    "falsyOptionFor env (KeyDAOOption env None) (independentOf KeyDAO_update)
       (\<lambda>cfg. KeyDAO cfg = fst (NewLevelDB env (ExpandEnv env defaultPath) None))"
| falsyMode:
    "falsyOptionFor env (ModeOption []) (independentOf Mode_update)
       (\<lambda>cfg. Mode cfg = defaultMode)"
| falsyTimeout: "timeout \<le> 0 \<Longrightarrow>
     falsyOptionFor env (TimeoutOption timeout) (independentOf Timeout_update)
       (\<lambda>cfg. Timeout cfg = defaultTimeout)"
| falsyLevel:
    "falsyOptionFor env (LevelOption []) (independentOf Level_update)
       (\<lambda>cfg. Level cfg = defaultLevel)"
| falsyMaxTxBytes: "maxTxBytes \<le> 0 \<Longrightarrow>
     falsyOptionFor env (MaxTxBytesOption maxTxBytes) (independentOf MaxTxBytes_update)
       (\<lambda>cfg. MaxTxBytes cfg = defaultMaxTxsBytes)"
| falsyGasAdjustment: "float64_le_zero gasAdjustment \<Longrightarrow>
     falsyOptionFor env (GasAdjustmentOption gasAdjustment) (independentOf GasAdjustment_update)
       (\<lambda>cfg. GasAdjustment cfg = defaultGasAdjustment)"
| falsyCached:
    "falsyOptionFor env (CachedOption False) (independentOf Cached_update)
       (\<lambda>cfg. Cached cfg = False)"
| falsyTokenManager:
    "falsyOptionFor env (TokenManagerOption None) (independentOf TokenManager_update)
       (\<lambda>cfg. TokenManager cfg = Some DefaultTokenManager)"
| falsyTxSizeLimit: "txSizeLimit \<le> 0 \<Longrightarrow>
     falsyOptionFor env (TxSizeLimitOption txSizeLimit) (independentOf TxSizeLimit_update)
       (\<lambda>cfg. TxSizeLimit cfg = defaultTxSizeLimit)"
| falsyKeyManager:
    "falsyOptionFor env (KeyManagerOption None) (independentOf KeyManager_update)
       (\<lambda>cfg. KeyManager cfg = None)"
| falsyBech32: "AccountAddr p = [] \<or> ValidatorAddr p = [] \<or> ConsensusAddr p = [] \<or>
     AccountPub p = [] \<or> ValidatorPub p = [] \<or> ConsensusPub p = [] \<Longrightarrow>
     falsyOptionFor env (Bech32AddressPrefixOption env p)
       (independentOf Bech32AddressPrefix_update)
       (\<lambda>cfg. Bech32AddressPrefix cfg = PrefixCfg env)"
| falsyBIP44Path:
    "falsyOptionFor env (BIP44PathOption []) (independentOf BIP44Path_update)
       (\<lambda>cfg. BIP44Path cfg = FullPath)"
| falsyBSNProject:
    "falsyOptionFor env (BSNProjectInfoOption zeroBSNProjectInfo)
       (independentOf BSNProject_update)
       (\<lambda>cfg. BSNProject cfg = zeroBSNProjectInfo)"

subsection \<open>Two concrete environments\<close>

text \<open>
  \<open>sampleEnv\<close>: the default fee string parses to four iris, the key store opens, the
  address prefixes are complete. \<open>lockedStoreEnv\<close>: the same, but the key store cannot
  be opened.
\<close>

definition sampleEnv :: Env where
  "sampleEnv =
     \<lparr>ParseDecCoins = (\<lambda>s. (Some [\<lparr>Denom = ''iris'', Amount = 4\<rparr>], None)),
      DecCoins_Empty = (\<lambda>coins. case coins of None \<Rightarrow> True | Some cs \<Rightarrow> cs = []),
      DecCoins_IsValid =
        (\<lambda>coins. case coins of None \<Rightarrow> True
                  | Some cs \<Rightarrow> list_all (\<lambda>c. Denom c \<noteq> [] \<and> 0 < Amount c) cs),
      ExpandEnv = (\<lambda>path. path),
      NewLevelDB = (\<lambda>path crypto. (Some (LevelDB path), None)),
      PrefixCfg =
        \<lparr>AccountAddr = ''iaa'', ValidatorAddr = ''iva'', ConsensusAddr = ''ica'',
         AccountPub = ''iap'', ValidatorPub = ''ivp'', ConsensusPub = ''icp''\<rparr>\<rparr>"

definition lockedStoreEnv :: Env where
  "lockedStoreEnv =
     sampleEnv\<lparr>NewLevelDB :=
       (\<lambda>path crypto. (None, Some (ExternalError ''resource temporarily unavailable'')))\<rparr>"

text \<open>
  A network where every endpoint answers, a dialer that refuses every dial, and two
  project identities.
\<close>

definition openNetwork :: Dialer where
  "openNetwork n url opts = None"

definition refusingDialer :: Dialer where
  "refusingDialer n url opts = Some (ExternalError ''connection refused'')"

definition firstIdentity :: BSNProjectInfo where
  "firstIdentity =
     \<lparr>ProjectId = ''project-1'', ProjectKey = ''key-1'', ChainAccountAddress = ''iaa1first''\<rparr>"

definition secondIdentity :: BSNProjectInfo where
  "secondIdentity =
     \<lparr>ProjectId = ''project-2'', ProjectKey = ''key-2'', ChainAccountAddress = ''iaa1second''\<rparr>"

text \<open>Three callers with their identities, and a schedule that interleaves them.\<close>

definition sampleIdentities :: "nat \<Rightarrow> BSNProjectInfo" where
  "sampleIdentities i = (if i = 0 then firstIdentity else secondIdentity)"

definition sampleSchedule :: "nat list" where
  "sampleSchedule = [0, 1, 0, 1, 0, 0, 2, 0, 0, 1, 2, 0, 1, 2]"

section \<open>How the option loop and the defaulting pass compute\<close>

subsection \<open>The option loop\<close>

lemma applyOptions_Cons_ok:
  "snd (optionFn cfg) = None \<Longrightarrow>
   applyOptions (optionFn # options) cfg = applyOptions options (fst (optionFn cfg))"
  by (simp add: split_def)

lemma applyOptions_Cons_err:
  "snd (optionFn cfg) = Some err \<Longrightarrow> applyOptions (optionFn # options) cfg = optionFn cfg"
  by (cases "optionFn cfg") simp

lemma applyOptions_append_ok:
  "snd (applyOptions xs cfg) = None \<Longrightarrow>
   applyOptions (xs @ ys) cfg = applyOptions ys (fst (applyOptions xs cfg))"
proof (induction xs arbitrary: cfg)
  case Nil
  show ?case by simp
next
  case (Cons optionFn xs)
  show ?case
  proof (cases "snd (optionFn cfg)")
    case None
    then show ?thesis using Cons by (simp add: applyOptions_Cons_ok del: applyOptions.simps)
  next
    case (Some err)
    then show ?thesis using Cons.prems by (simp add: applyOptions_Cons_err del: applyOptions.simps)
  qed
qed

lemma applyOptions_append_err:
  "snd (applyOptions xs cfg) = Some err \<Longrightarrow> applyOptions (xs @ ys) cfg = applyOptions xs cfg"
proof (induction xs arbitrary: cfg)
  case Nil
  then show ?case by simp
next
  case (Cons optionFn xs)
  show ?case
  proof (cases "snd (optionFn cfg)")
    case None
    then show ?thesis using Cons by (simp add: applyOptions_Cons_ok del: applyOptions.simps)
  next
    case (Some e)
    then show ?thesis by (simp add: applyOptions_Cons_err del: applyOptions.simps)
  qed
qed

lemma applyOptions_leaves:
  "\<forall>optionFn\<in>set options. leaves field optionFn \<Longrightarrow> field (fst (applyOptions options cfg)) = field cfg"
proof (induction options arbitrary: cfg)
  case Nil
  show ?case by simp
next
  case (Cons optionFn options)
  have step: "field (fst (optionFn cfg)) = field cfg"
    using Cons.prems by (simp add: leaves_def)
  have rest: "field (fst (applyOptions options (fst (optionFn cfg)))) = field (fst (optionFn cfg))"
    using Cons.IH Cons.prems by simp
  show ?case
  proof (cases "snd (optionFn cfg)")
    case None
    then show ?thesis using step rest by (simp add: applyOptions_Cons_ok del: applyOptions.simps)
  next
    case (Some e)
    then show ?thesis using step by (simp add: applyOptions_Cons_err del: applyOptions.simps)
  qed
qed

lemma applyOptions_independentOf:
  "\<forall>optionFn\<in>set options. independentOf upd optionFn \<Longrightarrow>
   applyOptions options (upd (\<lambda>_. a) cfg) =
     (upd (\<lambda>_. a) (fst (applyOptions options cfg)), snd (applyOptions options cfg))"
proof (induction options arbitrary: cfg)
  case Nil
  show ?case by simp
next
  case (Cons optionFn options)
  have step: "optionFn (upd (\<lambda>_. a) cfg) = (upd (\<lambda>_. a) (fst (optionFn cfg)), snd (optionFn cfg))"
    using Cons.prems by (simp add: independentOf_def)
  have rest: "applyOptions options (upd (\<lambda>_. a) (fst (optionFn cfg))) =
     (upd (\<lambda>_. a) (fst (applyOptions options (fst (optionFn cfg)))), snd (applyOptions options (fst (optionFn cfg))))"
    using Cons.IH Cons.prems by simp
  show ?case
  proof (cases "snd (optionFn cfg)")
    case None
    then show ?thesis using step rest by (simp add: applyOptions_Cons_ok del: applyOptions.simps)
  next
    case (Some e)
    then show ?thesis using step by (simp add: applyOptions_Cons_err del: applyOptions.simps)
  qed
qed

lemma applyOptions_last_set:
  assumes ok: "snd (applyOptions (before @ optionFn # after) cfg0) = None"
      and after: "\<forall>later\<in>set after. leaves field later"
      and sets: "\<And>cfg. field (fst (optionFn cfg)) = v"
  shows "field (fst (applyOptions (before @ optionFn # after) cfg0)) = v"
proof -
  let ?c1 = "fst (applyOptions before cfg0)"
  have e1: "snd (applyOptions before cfg0) = None"
  proof (cases "snd (applyOptions before cfg0)")
    case (Some err)
    then show ?thesis using ok applyOptions_append_err [OF Some] by simp
  qed simp
  have split: "applyOptions (before @ optionFn # after) cfg0 = applyOptions (optionFn # after) ?c1"
    using applyOptions_append_ok [OF e1] by simp
  have e2: "snd (optionFn ?c1) = None"
  proof (cases "snd (optionFn ?c1)")
    case (Some err)
    then show ?thesis using ok split by (simp add: applyOptions_Cons_err del: applyOptions.simps)
  qed simp
  have "applyOptions (before @ optionFn # after) cfg0 = applyOptions after (fst (optionFn ?c1))"
    using split e2 by (simp add: applyOptions_Cons_ok del: applyOptions.simps)
  then show ?thesis using applyOptions_leaves [OF after] sets by simp
qed

lemma applyOptions_insert_err:
  assumes "snd (applyOptions before cfg0) = Some err"
  shows "applyOptions (before @ optionFn # after) cfg0 = applyOptions (before @ after) cfg0"
  using applyOptions_append_err [OF assms] by simp

lemma applyOptions_insert_ok:
  assumes before: "snd (applyOptions before cfg0) = None"
      and sets: "\<And>cfg. optionFn cfg = (upd (\<lambda>_. v) cfg, None)"
      and after: "\<forall>later\<in>set after. independentOf upd later"
  shows "applyOptions (before @ optionFn # after) cfg0 =
           (upd (\<lambda>_. v) (fst (applyOptions (before @ after) cfg0)),
            snd (applyOptions (before @ after) cfg0))"
proof -
  let ?c1 = "fst (applyOptions before cfg0)"
  have "applyOptions (before @ optionFn # after) cfg0 = applyOptions (optionFn # after) ?c1"
    using applyOptions_append_ok [OF before] by simp
  also have "\<dots> = applyOptions after (upd (\<lambda>_. v) ?c1)"
    using sets by (simp add: applyOptions_Cons_ok del: applyOptions.simps)
  also have "\<dots> = (upd (\<lambda>_. v) (fst (applyOptions after ?c1)), snd (applyOptions after ?c1))"
    using applyOptions_independentOf [OF after] by simp
  finally show ?thesis
    using applyOptions_append_ok [OF before] by simp
qed

lemma applyOptions_untouched:
  assumes others: "\<forall>other\<in>set options. independentOf upd other"
      and get_put: "\<And>cfg a. field (upd (\<lambda>_. a) cfg) = a"
      and put_get: "\<And>cfg. upd (\<lambda>_. field cfg) cfg = cfg"
  shows "field (fst (applyOptions options cfg)) = field cfg"
proof -
  have "leaves field other" if ind: "independentOf upd other" for other
    unfolding leaves_def
  proof
    fix c
    have "other (upd (\<lambda>_. field c) c) =
            (upd (\<lambda>_. field c) (fst (other c)), snd (other c))"
      using ind by (simp add: independentOf_def)
    then have "other c = (upd (\<lambda>_. field c) (fst (other c)), snd (other c))"
      by (simp only: put_get)
    then have "fst (other c) = upd (\<lambda>_. field c) (fst (other c))"
      by (metis fst_conv)
    then have "field (fst (other c)) = field (upd (\<lambda>_. field c) (fst (other c)))"
      by simp
    then show "field (fst (other c)) = field c"
      by (simp add: get_put)
  qed
  then have "\<forall>other\<in>set options. leaves field other"
    using others by blast
  then show ?thesis by (rule applyOptions_leaves)
qed

subsection \<open>The defaulting pass, field by field\<close>

lemma float64_gt_zero_iff: "float64_gt_zero x \<longleftrightarrow> \<not> float64_le_zero x \<and> x \<noteq> NaN"
  by (cases x) auto

lemma checkAndSetDefault_char:
  "checkAndSetDefault env cfg =
     (if NodeURI cfg = [] then (cfg, Some (Errorf ''nodeURI is required''))
      else if ChainID cfg = [] then (cfg, Some (Errorf ''chainID is required''))
      else if KeyDAO cfg = None \<and> snd (NewLevelDB env (ExpandEnv env defaultPath) None) \<noteq> None
      then (cfg\<lparr>Gas := (if Gas cfg = 0 then defaultGas else Gas cfg),
                Fee := (if Fee cfg = None \<or> DecCoins_Empty env (Fee cfg) \<or>
                           \<not> DecCoins_IsValid env (Fee cfg)
                        then fst (ParseDecCoins env defaultFees) else Fee cfg),
                Algo := (if Algo cfg = [] then defaultAlgo else Algo cfg)\<rparr>,
            snd (NewLevelDB env (ExpandEnv env defaultPath) None))
      else (cfg\<lparr>Gas := (if Gas cfg = 0 then defaultGas else Gas cfg),
                Fee := (if Fee cfg = None \<or> DecCoins_Empty env (Fee cfg) \<or>
                           \<not> DecCoins_IsValid env (Fee cfg)
                        then fst (ParseDecCoins env defaultFees) else Fee cfg),
                Algo := (if Algo cfg = [] then defaultAlgo else Algo cfg),
                KeyDAO := (if KeyDAO cfg = None
                           then fst (NewLevelDB env (ExpandEnv env defaultPath) None)
                           else KeyDAO cfg),
                Mode := (if Mode cfg = [] then defaultMode else Mode cfg),
                Timeout := (if Timeout cfg = 0 then defaultTimeout else Timeout cfg),
                Level := (if Level cfg = [] then defaultLevel else Level cfg),
                MaxTxBytes := (if MaxTxBytes cfg = 0 then defaultMaxTxsBytes else MaxTxBytes cfg),
                TokenManager := (if TokenManager cfg = None then Some DefaultTokenManager
                                 else TokenManager cfg),
                TxSizeLimit := (if TxSizeLimit cfg = 0 then defaultTxSizeLimit
                                else TxSizeLimit cfg),
                Bech32AddressPrefix :=
                  (if AccountAddr (Bech32AddressPrefix cfg) = [] \<or>
                      ValidatorAddr (Bech32AddressPrefix cfg) = [] \<or>
                      ConsensusAddr (Bech32AddressPrefix cfg) = [] \<or>
                      AccountPub (Bech32AddressPrefix cfg) = [] \<or>
                      ValidatorPub (Bech32AddressPrefix cfg) = [] \<or>
                      ConsensusPub (Bech32AddressPrefix cfg) = []
                   then PrefixCfg env else Bech32AddressPrefix cfg),
                BIP44Path := (if BIP44Path cfg = [] then FullPath else BIP44Path cfg),
                GasAdjustment := (if float64_le_zero (GasAdjustment cfg)
                                  then defaultGasAdjustment else GasAdjustment cfg)\<rparr>,
            None))"
  unfolding checkAndSetDefault_def
  by (simp add: GasOption_def FeeOption_def AlgoOption_def KeyDAOOption_def ModeOption_def
      TimeoutOption_def LevelOption_def MaxTxBytesOption_def TokenManagerOption_def
      TxSizeLimitOption_def Bech32AddressPrefixOption_def BIP44PathOption_def
      BSNProjectInfoOption_def GasAdjustmentOption_def Let_def split_def del: not_None_eq)

lemma checkAndSetDefault_error:
  "snd (checkAndSetDefault env cfg) =
     (if NodeURI cfg = [] then Some (Errorf ''nodeURI is required'')
      else if ChainID cfg = [] then Some (Errorf ''chainID is required'')
      else if KeyDAO cfg = None then snd (NewLevelDB env (ExpandEnv env defaultPath) None)
      else None)"
  by (simp add: checkAndSetDefault_char del: not_None_eq)

lemma checkAndSetDefault_success:
  assumes "checkAndSetDefault env cfg = (cfg', None)"
  shows "NodeURI cfg \<noteq> [] \<and> ChainID cfg \<noteq> [] \<and>
         NodeURI cfg' = NodeURI cfg \<and> ChainID cfg' = ChainID cfg \<and> GRPCAddr cfg' = GRPCAddr cfg \<and>
         Gas cfg' = (if Gas cfg = 0 then defaultGas else Gas cfg) \<and>
         Fee cfg' = (if Fee cfg = None \<or> DecCoins_Empty env (Fee cfg) \<or>
                        \<not> DecCoins_IsValid env (Fee cfg)
                     then fst (ParseDecCoins env defaultFees) else Fee cfg) \<and>
         Algo cfg' = (if Algo cfg = [] then defaultAlgo else Algo cfg) \<and>
         KeyDAO cfg' = (if KeyDAO cfg = None
                        then fst (NewLevelDB env (ExpandEnv env defaultPath) None)
                        else KeyDAO cfg) \<and>
         (KeyDAO cfg = None \<longrightarrow> snd (NewLevelDB env (ExpandEnv env defaultPath) None) = None) \<and>
         Mode cfg' = (if Mode cfg = [] then defaultMode else Mode cfg) \<and>
         Timeout cfg' = (if Timeout cfg = 0 then defaultTimeout else Timeout cfg) \<and>
         Level cfg' = (if Level cfg = [] then defaultLevel else Level cfg) \<and>
         MaxTxBytes cfg' = (if MaxTxBytes cfg = 0 then defaultMaxTxsBytes else MaxTxBytes cfg) \<and>
         GasAdjustment cfg' = (if float64_le_zero (GasAdjustment cfg)
                               then defaultGasAdjustment else GasAdjustment cfg) \<and>
         Cached cfg' = Cached cfg \<and>
         TokenManager cfg' = (if TokenManager cfg = None then Some DefaultTokenManager
                              else TokenManager cfg) \<and>
         KeyManager cfg' = KeyManager cfg \<and>
         TxSizeLimit cfg' = (if TxSizeLimit cfg = 0 then defaultTxSizeLimit
                             else TxSizeLimit cfg) \<and>
         Bech32AddressPrefix cfg' =
           (if AccountAddr (Bech32AddressPrefix cfg) = [] \<or>
               ValidatorAddr (Bech32AddressPrefix cfg) = [] \<or>
               ConsensusAddr (Bech32AddressPrefix cfg) = [] \<or>
               AccountPub (Bech32AddressPrefix cfg) = [] \<or>
               ValidatorPub (Bech32AddressPrefix cfg) = [] \<or>
               ConsensusPub (Bech32AddressPrefix cfg) = []
            then PrefixCfg env else Bech32AddressPrefix cfg) \<and>
         BIP44Path cfg' = (if BIP44Path cfg = [] then FullPath else BIP44Path cfg) \<and>
         BSNProject cfg' = BSNProject cfg"
proof -
  have e: "snd (checkAndSetDefault env cfg) = None"
    using assms by simp
  have a: "NodeURI cfg \<noteq> []"
    using e by (auto simp add: checkAndSetDefault_error)
  have b: "ChainID cfg \<noteq> []"
    using e a by (auto simp add: checkAndSetDefault_error)
  have store: "KeyDAO cfg = None \<longrightarrow> snd (NewLevelDB env (ExpandEnv env defaultPath) None) = None"
    using e a b by (auto simp add: checkAndSetDefault_error simp del: not_None_eq)
  then have cond:
    "(KeyDAO cfg = None \<and> snd (NewLevelDB env (ExpandEnv env defaultPath) None) \<noteq> None) = False"
    by auto
  have a': "(NodeURI cfg = []) = False" and b': "(ChainID cfg = []) = False"
    using a b by simp_all
  have d: "cfg' = fst (checkAndSetDefault env cfg)"
    using assms by simp
  show ?thesis
    unfolding d
    by (simp only: checkAndSetDefault_char a' b' cond if_False fst_conv)
      (simp add: a b store del: not_None_eq)
qed

lemma checkAndSetDefault_error_BSNProject:
  "snd (checkAndSetDefault env (cfg\<lparr>BSNProject := info\<rparr>)) = snd (checkAndSetDefault env cfg)"
  by (simp add: checkAndSetDefault_error)

lemma checkAndSetDefault_fst:
  assumes "snd (checkAndSetDefault env cfg) = None"
  shows "fst (checkAndSetDefault env cfg) =
           cfg\<lparr>Gas := (if Gas cfg = 0 then defaultGas else Gas cfg),
                Fee := (if Fee cfg = None \<or> DecCoins_Empty env (Fee cfg) \<or>
                           \<not> DecCoins_IsValid env (Fee cfg)
                        then fst (ParseDecCoins env defaultFees) else Fee cfg),
                Algo := (if Algo cfg = [] then defaultAlgo else Algo cfg),
                KeyDAO := (if KeyDAO cfg = None
                           then fst (NewLevelDB env (ExpandEnv env defaultPath) None)
                           else KeyDAO cfg),
                Mode := (if Mode cfg = [] then defaultMode else Mode cfg),
                Timeout := (if Timeout cfg = 0 then defaultTimeout else Timeout cfg),
                Level := (if Level cfg = [] then defaultLevel else Level cfg),
                MaxTxBytes := (if MaxTxBytes cfg = 0 then defaultMaxTxsBytes else MaxTxBytes cfg),
                TokenManager := (if TokenManager cfg = None then Some DefaultTokenManager
                                 else TokenManager cfg),
                TxSizeLimit := (if TxSizeLimit cfg = 0 then defaultTxSizeLimit
                                else TxSizeLimit cfg),
                Bech32AddressPrefix :=
                  (if AccountAddr (Bech32AddressPrefix cfg) = [] \<or>
                      ValidatorAddr (Bech32AddressPrefix cfg) = [] \<or>
                      ConsensusAddr (Bech32AddressPrefix cfg) = [] \<or>
                      AccountPub (Bech32AddressPrefix cfg) = [] \<or>
                      ValidatorPub (Bech32AddressPrefix cfg) = [] \<or>
                      ConsensusPub (Bech32AddressPrefix cfg) = []
                   then PrefixCfg env else Bech32AddressPrefix cfg),
                BIP44Path := (if BIP44Path cfg = [] then FullPath else BIP44Path cfg),
                GasAdjustment := (if float64_le_zero (GasAdjustment cfg)
                                  then defaultGasAdjustment else GasAdjustment cfg)\<rparr>"
proof -
  have uri: "NodeURI cfg \<noteq> []"
    using assms by (auto simp add: checkAndSetDefault_error)
  have chain: "ChainID cfg \<noteq> []"
    using assms uri by (auto simp add: checkAndSetDefault_error)
  have "KeyDAO cfg = None \<longrightarrow> snd (NewLevelDB env (ExpandEnv env defaultPath) None) = None"
    using assms uri chain by (auto simp add: checkAndSetDefault_error simp del: not_None_eq)
  then have cond:
    "(KeyDAO cfg = None \<and> snd (NewLevelDB env (ExpandEnv env defaultPath) None) \<noteq> None) = False"
    by auto
  have a: "(NodeURI cfg = []) = False" and b: "(ChainID cfg = []) = False"
    using uri chain by simp_all
  show ?thesis
    by (simp only: checkAndSetDefault_char a b cond if_False fst_conv)
qed

text \<open>
  Setting an unset field to its default before the defaulting pass changes neither the
  error nor the resulting configuration, and a field that holds its default keeps it.
\<close>

lemma unset_defaulting_error:
  "snd (checkAndSetDefault env (cfg\<lparr>Gas := gas\<rparr>)) = snd (checkAndSetDefault env cfg)"
  "snd (checkAndSetDefault env (cfg\<lparr>Fee := fee\<rparr>)) = snd (checkAndSetDefault env cfg)"
  "snd (checkAndSetDefault env (cfg\<lparr>Algo := algo\<rparr>)) = snd (checkAndSetDefault env cfg)"
  "snd (checkAndSetDefault env (cfg\<lparr>Mode := mode\<rparr>)) = snd (checkAndSetDefault env cfg)"
  "snd (checkAndSetDefault env (cfg\<lparr>Timeout := timeout\<rparr>)) = snd (checkAndSetDefault env cfg)"
  "snd (checkAndSetDefault env (cfg\<lparr>Level := level\<rparr>)) = snd (checkAndSetDefault env cfg)"
  "snd (checkAndSetDefault env (cfg\<lparr>MaxTxBytes := maxTxBytes\<rparr>)) =
     snd (checkAndSetDefault env cfg)"
  "snd (checkAndSetDefault env (cfg\<lparr>GasAdjustment := gasAdjustment\<rparr>)) =
     snd (checkAndSetDefault env cfg)"
  "snd (checkAndSetDefault env (cfg\<lparr>Cached := enabled\<rparr>)) = snd (checkAndSetDefault env cfg)"
  "snd (checkAndSetDefault env (cfg\<lparr>TokenManager := tokenManager\<rparr>)) =
     snd (checkAndSetDefault env cfg)"
  "snd (checkAndSetDefault env (cfg\<lparr>TxSizeLimit := txSizeLimit\<rparr>)) =
     snd (checkAndSetDefault env cfg)"
  "snd (checkAndSetDefault env (cfg\<lparr>KeyManager := keyManager\<rparr>)) =
     snd (checkAndSetDefault env cfg)"
  "snd (checkAndSetDefault env (cfg\<lparr>Bech32AddressPrefix := p\<rparr>)) =
     snd (checkAndSetDefault env cfg)"
  "snd (checkAndSetDefault env (cfg\<lparr>BIP44Path := path\<rparr>)) = snd (checkAndSetDefault env cfg)"
  "snd (checkAndSetDefault env (cfg\<lparr>BSNProject := info\<rparr>)) = snd (checkAndSetDefault env cfg)"
  by (simp_all add: checkAndSetDefault_error)

lemma unset_defaulting_config:
  assumes ok: "snd (checkAndSetDefault env cfg) = None"
  shows "Gas cfg = 0 \<Longrightarrow>
           fst (checkAndSetDefault env (cfg\<lparr>Gas := defaultGas\<rparr>)) =
           fst (checkAndSetDefault env cfg)"
    and "Fee cfg = None \<or> DecCoins_Empty env (Fee cfg) \<or> \<not> DecCoins_IsValid env (Fee cfg) \<Longrightarrow>
           fst (checkAndSetDefault env (cfg\<lparr>Fee := fst (ParseDecCoins env defaultFees)\<rparr>)) =
           fst (checkAndSetDefault env cfg)"
    and "Algo cfg = [] \<Longrightarrow>
           fst (checkAndSetDefault env (cfg\<lparr>Algo := defaultAlgo\<rparr>)) =
           fst (checkAndSetDefault env cfg)"
    and "Mode cfg = [] \<Longrightarrow>
           fst (checkAndSetDefault env (cfg\<lparr>Mode := defaultMode\<rparr>)) =
           fst (checkAndSetDefault env cfg)"
    and "Timeout cfg = 0 \<Longrightarrow>
           fst (checkAndSetDefault env (cfg\<lparr>Timeout := defaultTimeout\<rparr>)) =
           fst (checkAndSetDefault env cfg)"
    and "Level cfg = [] \<Longrightarrow>
           fst (checkAndSetDefault env (cfg\<lparr>Level := defaultLevel\<rparr>)) =
           fst (checkAndSetDefault env cfg)"
    and "MaxTxBytes cfg = 0 \<Longrightarrow>
           fst (checkAndSetDefault env (cfg\<lparr>MaxTxBytes := defaultMaxTxsBytes\<rparr>)) =
           fst (checkAndSetDefault env cfg)"
    and "float64_le_zero (GasAdjustment cfg) \<Longrightarrow>
           fst (checkAndSetDefault env (cfg\<lparr>GasAdjustment := defaultGasAdjustment\<rparr>)) =
           fst (checkAndSetDefault env cfg)"
    and "TokenManager cfg = None \<Longrightarrow>
           fst (checkAndSetDefault env (cfg\<lparr>TokenManager := Some DefaultTokenManager\<rparr>)) =
           fst (checkAndSetDefault env cfg)"
    and "TxSizeLimit cfg = 0 \<Longrightarrow>
           fst (checkAndSetDefault env (cfg\<lparr>TxSizeLimit := defaultTxSizeLimit\<rparr>)) =
           fst (checkAndSetDefault env cfg)"
    and "AccountAddr (Bech32AddressPrefix cfg) = [] \<or> ValidatorAddr (Bech32AddressPrefix cfg) = [] \<or>
         ConsensusAddr (Bech32AddressPrefix cfg) = [] \<or> AccountPub (Bech32AddressPrefix cfg) = [] \<or>
         ValidatorPub (Bech32AddressPrefix cfg) = [] \<or> ConsensusPub (Bech32AddressPrefix cfg) = [] \<Longrightarrow>
           fst (checkAndSetDefault env (cfg\<lparr>Bech32AddressPrefix := PrefixCfg env\<rparr>)) =
           fst (checkAndSetDefault env cfg)"
    and "BIP44Path cfg = [] \<Longrightarrow>
           fst (checkAndSetDefault env (cfg\<lparr>BIP44Path := FullPath\<rparr>)) =
           fst (checkAndSetDefault env cfg)"
  by (simp_all add: checkAndSetDefault_fst unset_defaulting_error ok)

lemma unset_field_unchanged:
  "Cached cfg = False \<Longrightarrow> cfg\<lparr>Cached := False\<rparr> = cfg"
  "KeyManager cfg = None \<Longrightarrow> cfg\<lparr>KeyManager := None\<rparr> = cfg"
  "BSNProject cfg = zeroBSNProjectInfo \<Longrightarrow> cfg\<lparr>BSNProject := zeroBSNProjectInfo\<rparr> = cfg"
  by (cases cfg; simp)+

lemma defaults_are_kept:
  assumes "checkAndSetDefault env cfg = (cfg', None)"
  shows "Gas cfg = defaultGas \<Longrightarrow> Gas cfg' = defaultGas"
    and "Fee cfg = fst (ParseDecCoins env defaultFees) \<Longrightarrow>
         Fee cfg' = fst (ParseDecCoins env defaultFees)"
    and "Algo cfg = defaultAlgo \<Longrightarrow> Algo cfg' = defaultAlgo"
    and "KeyDAO cfg = fst (NewLevelDB env (ExpandEnv env defaultPath) None) \<Longrightarrow>
         KeyDAO cfg' = fst (NewLevelDB env (ExpandEnv env defaultPath) None)"
    and "Mode cfg = defaultMode \<Longrightarrow> Mode cfg' = defaultMode"
    and "Timeout cfg = defaultTimeout \<Longrightarrow> Timeout cfg' = defaultTimeout"
    and "Level cfg = defaultLevel \<Longrightarrow> Level cfg' = defaultLevel"
    and "MaxTxBytes cfg = defaultMaxTxsBytes \<Longrightarrow> MaxTxBytes cfg' = defaultMaxTxsBytes"
    and "GasAdjustment cfg = defaultGasAdjustment \<Longrightarrow> GasAdjustment cfg' = defaultGasAdjustment"
    and "Cached cfg = False \<Longrightarrow> Cached cfg' = False"
    and "TokenManager cfg = Some DefaultTokenManager \<Longrightarrow>
         TokenManager cfg' = Some DefaultTokenManager"
    and "TxSizeLimit cfg = defaultTxSizeLimit \<Longrightarrow> TxSizeLimit cfg' = defaultTxSizeLimit"
    and "KeyManager cfg = None \<Longrightarrow> KeyManager cfg' = None"
    and "Bech32AddressPrefix cfg = PrefixCfg env \<Longrightarrow> Bech32AddressPrefix cfg' = PrefixCfg env"
    and "BIP44Path cfg = FullPath \<Longrightarrow> BIP44Path cfg' = FullPath"
    and "BSNProject cfg = zeroBSNProjectInfo \<Longrightarrow> BSNProject cfg' = zeroBSNProjectInfo"
  using checkAndSetDefault_success [OF assms] by simp_all

subsection \<open>The constructor\<close>

lemma NewClientConfig_unfold:
  "NewClientConfig env uri grpcAddr chainID options =
     (if snd (applyOptions options (initialConfig uri grpcAddr chainID)) \<noteq> None
      then (zeroClientConfig, snd (applyOptions options (initialConfig uri grpcAddr chainID)))
      else if snd (checkAndSetDefault env
                    (fst (applyOptions options (initialConfig uri grpcAddr chainID)))) \<noteq> None
      then (zeroClientConfig,
            snd (checkAndSetDefault env
                  (fst (applyOptions options (initialConfig uri grpcAddr chainID)))))
      else (fst (checkAndSetDefault env
                  (fst (applyOptions options (initialConfig uri grpcAddr chainID)))), None))"
  by (simp add: NewClientConfig_def split_def del: not_None_eq)

lemma NewClientConfig_options_err:
  "snd (applyOptions options (initialConfig uri grpcAddr chainID)) = Some err \<Longrightarrow>
   NewClientConfig env uri grpcAddr chainID options = (zeroClientConfig, Some err)"
  by (simp add: NewClientConfig_def split_def)

lemma NewClientConfig_check_err:
  "snd (applyOptions options (initialConfig uri grpcAddr chainID)) = None \<Longrightarrow>
   snd (checkAndSetDefault env (fst (applyOptions options (initialConfig uri grpcAddr chainID))))
     = Some err \<Longrightarrow>
   NewClientConfig env uri grpcAddr chainID options = (zeroClientConfig, Some err)"
  by (simp add: NewClientConfig_def split_def)

lemma NewClientConfig_ok:
  "snd (applyOptions options (initialConfig uri grpcAddr chainID)) = None \<Longrightarrow>
   snd (checkAndSetDefault env (fst (applyOptions options (initialConfig uri grpcAddr chainID))))
     = None \<Longrightarrow>
   NewClientConfig env uri grpcAddr chainID options =
     (fst (checkAndSetDefault env (fst (applyOptions options (initialConfig uri grpcAddr chainID)))),
      None)"
  by (simp add: NewClientConfig_def split_def)

lemma NewClientConfig_success:
  assumes "NewClientConfig env uri grpcAddr chainID options = (cfg, None)"
  shows "snd (applyOptions options (initialConfig uri grpcAddr chainID)) = None \<and>
         checkAndSetDefault env (fst (applyOptions options (initialConfig uri grpcAddr chainID)))
           = (cfg, None)"
proof (cases "snd (applyOptions options (initialConfig uri grpcAddr chainID))")
  case (Some err)
  then show ?thesis using assms NewClientConfig_options_err by simp
next
  case None
  show ?thesis
  proof (cases "snd (checkAndSetDefault env
                  (fst (applyOptions options (initialConfig uri grpcAddr chainID))))")
    case (Some err)
    then show ?thesis using assms None NewClientConfig_check_err by simp
  next
    case inner: None
    have "fst (checkAndSetDefault env
                  (fst (applyOptions options (initialConfig uri grpcAddr chainID)))) = cfg"
      using assms NewClientConfig_ok [OF None inner] by simp
    then show ?thesis using None inner by (metis prod.collapse)
  qed
qed

lemma options_leave_required:
  "leaves NodeURI (FeeOption env fee) \<and> leaves ChainID (FeeOption env fee)"
  "leaves NodeURI (KeyDAOOption env dao) \<and> leaves ChainID (KeyDAOOption env dao)"
  "leaves NodeURI (GasOption gas) \<and> leaves ChainID (GasOption gas)"
  "leaves NodeURI (AlgoOption algo) \<and> leaves ChainID (AlgoOption algo)"
  "leaves NodeURI (ModeOption mode) \<and> leaves ChainID (ModeOption mode)"
  "leaves NodeURI (TimeoutOption timeout) \<and> leaves ChainID (TimeoutOption timeout)"
  "leaves NodeURI (LevelOption level) \<and> leaves ChainID (LevelOption level)"
  "leaves NodeURI (MaxTxBytesOption maxTxBytes) \<and> leaves ChainID (MaxTxBytesOption maxTxBytes)"
  "leaves NodeURI (GasAdjustmentOption gasAdjustment) \<and>
   leaves ChainID (GasAdjustmentOption gasAdjustment)"
  "leaves NodeURI (CachedOption enabled) \<and> leaves ChainID (CachedOption enabled)"
  "leaves NodeURI (TokenManagerOption tokenManager) \<and>
   leaves ChainID (TokenManagerOption tokenManager)"
  "leaves NodeURI (TxSizeLimitOption txSizeLimit) \<and> leaves ChainID (TxSizeLimitOption txSizeLimit)"
  "leaves NodeURI (KeyManagerOption keyManager) \<and> leaves ChainID (KeyManagerOption keyManager)"
  "leaves NodeURI (Bech32AddressPrefixOption env p) \<and>
   leaves ChainID (Bech32AddressPrefixOption env p)"
  "leaves NodeURI (BIP44PathOption path) \<and> leaves ChainID (BIP44PathOption path)"
  "leaves NodeURI (BSNProjectInfoOption info) \<and> leaves ChainID (BSNProjectInfoOption info)"
  by (simp_all add: leaves_def FeeOption_def KeyDAOOption_def GasOption_def AlgoOption_def
      ModeOption_def TimeoutOption_def LevelOption_def MaxTxBytesOption_def
      GasAdjustmentOption_def CachedOption_def TokenManagerOption_def TxSizeLimitOption_def
      KeyManagerOption_def Bech32AddressPrefixOption_def BIP44PathOption_def
      BSNProjectInfoOption_def Let_def split_def del: not_None_eq)

lemma BSNProjectInfoOption_apply:
  "BSNProjectInfoOption info cfg = (cfg\<lparr>BSNProject := info\<rparr>, None)"
  by (simp add: BSNProjectInfoOption_def)

lemma options_independent_of_Gas:
  "independentOf Gas_update (FeeOption env fee)"
  "independentOf Gas_update (KeyDAOOption env dao)"
  "independentOf Gas_update (AlgoOption algo)"
  "independentOf Gas_update (ModeOption mode)"
  "independentOf Gas_update (TimeoutOption timeout)"
  "independentOf Gas_update (LevelOption level)"
  "independentOf Gas_update (MaxTxBytesOption maxTxBytes)"
  "independentOf Gas_update (GasAdjustmentOption gasAdjustment)"
  "independentOf Gas_update (CachedOption enabled)"
  "independentOf Gas_update (TokenManagerOption tokenManager)"
  "independentOf Gas_update (TxSizeLimitOption txSizeLimit)"
  "independentOf Gas_update (KeyManagerOption keyManager)"
  "independentOf Gas_update (Bech32AddressPrefixOption env p)"
  "independentOf Gas_update (BIP44PathOption path)"
  "independentOf Gas_update (BSNProjectInfoOption info)"
  by (simp_all add: independentOf_def FeeOption_def KeyDAOOption_def AlgoOption_def
      ModeOption_def TimeoutOption_def LevelOption_def MaxTxBytesOption_def
      GasAdjustmentOption_def CachedOption_def TokenManagerOption_def TxSizeLimitOption_def
      KeyManagerOption_def Bech32AddressPrefixOption_def BIP44PathOption_def
      BSNProjectInfoOption_def Let_def split_def del: not_None_eq)

text \<open>
  An option that sets its field to a fixed value, put anywhere among options independent
  of that field, when the defaulting pass does not tell the value from the unset field.
\<close>

lemma falsy_insert:
  assumes sets: "\<And>cfg. optionFn cfg = (upd (\<lambda>_. d) cfg, None)"
      and others: "\<forall>other\<in>set before \<union> set after. independentOf upd other"
      and get_put: "\<And>cfg a. field (upd (\<lambda>_. a) cfg) = a"
      and put_get: "\<And>cfg. upd (\<lambda>_. field cfg) cfg = cfg"
      and unset: "P (field (initialConfig uri grpcAddr chainID))"
      and norm_err: "\<And>cfg. P (field cfg) \<Longrightarrow>
          snd (checkAndSetDefault env (upd (\<lambda>_. d) cfg)) = snd (checkAndSetDefault env cfg)"
      and norm_cfg: "\<And>cfg. P (field cfg) \<Longrightarrow> snd (checkAndSetDefault env cfg) = None \<Longrightarrow>
          fst (checkAndSetDefault env (upd (\<lambda>_. d) cfg)) = fst (checkAndSetDefault env cfg)"
  shows "NewClientConfig env uri grpcAddr chainID (before @ optionFn # after) =
         NewClientConfig env uri grpcAddr chainID (before @ after)"
proof (cases "snd (applyOptions before (initialConfig uri grpcAddr chainID))")
  case (Some err)
  show ?thesis
    by (simp only: NewClientConfig_unfold applyOptions_insert_err [OF Some])
next
  case None
  let ?r = "applyOptions (before @ after) (initialConfig uri grpcAddr chainID)"
  have after: "\<forall>later\<in>set after. independentOf upd later"
    using others by simp
  have ins: "applyOptions (before @ optionFn # after) (initialConfig uri grpcAddr chainID) =
               (upd (\<lambda>_. d) (fst ?r), snd ?r)"
    using applyOptions_insert_ok [OF None sets after] .
  have "field (fst ?r) = field (initialConfig uri grpcAddr chainID)"
    using applyOptions_untouched [of "before @ after" upd field] others get_put put_get by simp
  then have P: "P (field (fst ?r))"
    using unset by simp
  show ?thesis
  proof (cases "snd (checkAndSetDefault env (fst ?r))")
    case (Some err)
    then show ?thesis
      using norm_err [OF P] by (simp add: NewClientConfig_unfold ins del: not_None_eq)
  next
    case inner: None
    then show ?thesis
      using norm_err [OF P] norm_cfg [OF P inner]
      by (simp add: NewClientConfig_unfold ins del: not_None_eq)
  qed
qed

lemma falsy_insert_default:
  assumes sets: "\<And>cfg. optionFn cfg = (upd (\<lambda>_. d) cfg, None)"
      and after: "\<forall>other\<in>set after. independentOf upd other"
      and get_put: "\<And>cfg a. field (upd (\<lambda>_. a) cfg) = a"
      and put_get: "\<And>cfg. upd (\<lambda>_. field cfg) cfg = cfg"
      and kept: "\<And>cfg cfg'. checkAndSetDefault env cfg = (cfg', None) \<Longrightarrow> field cfg = d \<Longrightarrow>
                  atDefault cfg'"
      and ok: "snd (NewClientConfig env uri grpcAddr chainID (before @ optionFn # after)) = None"
  shows "atDefault (fst (NewClientConfig env uri grpcAddr chainID (before @ optionFn # after)))"
proof -
  let ?b = "NewClientConfig env uri grpcAddr chainID (before @ optionFn # after)"
  let ?r = "applyOptions (before @ optionFn # after) (initialConfig uri grpcAddr chainID)"
  have built: "?b = (fst ?b, None)"
    using ok by (simp add: prod_eq_iff)
  have opts: "snd ?r = None" and chk: "checkAndSetDefault env (fst ?r) = (fst ?b, None)"
    using NewClientConfig_success [OF built] by simp_all
  have "leaves field other" if "other \<in> set after" for other
    unfolding leaves_def
  proof
    fix c
    have "field (fst (applyOptions [other] c)) = field c"
      using applyOptions_untouched [of "[other]" upd field c] after that get_put put_get by simp
    then show "field (fst (other c)) = field c"
      by (cases "snd (other c)") (simp_all add: split_def)
  qed
  then have "\<forall>later\<in>set after. leaves field later"
    by blast
  then have "field (fst ?r) = d"
    using applyOptions_last_set [where field = field and v = d, OF opts] sets get_put by simp
  then show ?thesis using kept [OF chk] by simp
qed

lemma falsy_insert_full:
  assumes sets: "\<And>cfg. optionFn cfg = (upd (\<lambda>_. d) cfg, None)"
      and others: "\<forall>other\<in>set before \<union> set after. independentOf upd other"
      and get_put: "\<And>cfg a. field (upd (\<lambda>_. a) cfg) = a"
      and put_get: "\<And>cfg. upd (\<lambda>_. field cfg) cfg = cfg"
      and unset: "P (field (initialConfig uri grpcAddr chainID))"
      and norm_err: "\<And>cfg. P (field cfg) \<Longrightarrow>
          snd (checkAndSetDefault env (upd (\<lambda>_. d) cfg)) = snd (checkAndSetDefault env cfg)"
      and norm_cfg: "\<And>cfg. P (field cfg) \<Longrightarrow> snd (checkAndSetDefault env cfg) = None \<Longrightarrow>
          fst (checkAndSetDefault env (upd (\<lambda>_. d) cfg)) = fst (checkAndSetDefault env cfg)"
      and kept: "\<And>cfg cfg'. checkAndSetDefault env cfg = (cfg', None) \<Longrightarrow> field cfg = d \<Longrightarrow>
                  atDefault cfg'"
  shows "fst (NewClientConfig env uri grpcAddr chainID (before @ optionFn # after)) =
         fst (NewClientConfig env uri grpcAddr chainID (before @ after)) \<and>
         ((snd (NewClientConfig env uri grpcAddr chainID (before @ optionFn # after)) = None) =
          (snd (NewClientConfig env uri grpcAddr chainID (before @ after)) = None)) \<and>
         (snd (NewClientConfig env uri grpcAddr chainID (before @ optionFn # after)) = None \<longrightarrow>
          atDefault (fst (NewClientConfig env uri grpcAddr chainID (before @ optionFn # after))))"
proof -
  have same: "NewClientConfig env uri grpcAddr chainID (before @ optionFn # after) =
              NewClientConfig env uri grpcAddr chainID (before @ after)"
    using sets others get_put put_get unset norm_err norm_cfg
    by (rule falsy_insert [where upd = upd and field = field and d = d and P = P])
  have after: "\<forall>other\<in>set after. independentOf upd other"
    using others by simp
  have "atDefault (fst (NewClientConfig env uri grpcAddr chainID (before @ optionFn # after)))"
    if "snd (NewClientConfig env uri grpcAddr chainID (before @ optionFn # after)) = None"
    using sets after get_put put_get kept that
    by (rule falsy_insert_default [where upd = upd and field = field and d = d])
  then show ?thesis using same by simp
qed

lemma keyDAO_store_fails:
  assumes fails: "snd (NewLevelDB env (ExpandEnv env defaultPath) None) = Some err"
      and others: "\<forall>other\<in>set before \<union> set after. independentOf KeyDAO_update other"
  shows "NewClientConfig env uri grpcAddr chainID (before @ KeyDAOOption env None # after) =
           (zeroClientConfig,
            snd (NewClientConfig env uri grpcAddr chainID (before @ KeyDAOOption env None # after))) \<and>
         snd (NewClientConfig env uri grpcAddr chainID (before @ KeyDAOOption env None # after)) \<noteq> None \<and>
         NewClientConfig env uri grpcAddr chainID (before @ after) =
           (zeroClientConfig, snd (NewClientConfig env uri grpcAddr chainID (before @ after))) \<and>
         snd (NewClientConfig env uri grpcAddr chainID (before @ after)) \<noteq> None"
proof -
  let ?seed = "initialConfig uri grpcAddr chainID"
  let ?z = "KeyDAOOption env None"
  have z: "?z cfg = (cfg, Some err)" for cfg
    using fails by (simp add: KeyDAOOption_def split_def)
  have with_z: "snd (applyOptions (before @ ?z # after) ?seed) \<noteq> None"
  proof (cases "snd (applyOptions before ?seed)")
    case (Some e)
    then show ?thesis using applyOptions_append_err [OF Some] by simp
  next
    case None
    have "applyOptions (before @ ?z # after) ?seed =
            applyOptions (?z # after) (fst (applyOptions before ?seed))"
      using applyOptions_append_ok [OF None] by simp
    then show ?thesis
      by (simp add: applyOptions_Cons_err [where err = err] z del: applyOptions.simps)
  qed
  let ?r = "applyOptions (before @ after) ?seed"
  have "KeyDAO (fst ?r) = KeyDAO ?seed"
    using applyOptions_untouched [of "before @ after" KeyDAO_update KeyDAO] others by simp
  then have unset: "KeyDAO (fst ?r) = None"
    by (simp add: initialConfig_def zeroClientConfig_def)
  have chk: "snd (checkAndSetDefault env (fst ?r)) \<noteq> None"
    using unset fails by (simp add: checkAndSetDefault_error)
  show ?thesis
    using with_z chk by (simp add: NewClientConfig_unfold del: not_None_eq)
qed

text \<open>
  What the defaulting pass guarantees on success, for every list of options, under what
  the collaborators outside the two files must provide: the default fee string parses to
  a non-empty valid amount, a key store that opens is not nil, and \<open>PrefixCfg\<close> has its
  six prefixes. The gas adjustment is positive unless the options left NaN in the field.
\<close>

lemma defaulted_fields_valid:
  assumes built: "NewClientConfig env uri grpcAddr chainID options = (cfg, None)"
      and fee: "\<not> DecCoins_Empty env (fst (ParseDecCoins env defaultFees)) \<and>
                DecCoins_IsValid env (fst (ParseDecCoins env defaultFees))"
      and store: "snd (NewLevelDB env (ExpandEnv env defaultPath) None) = None \<longrightarrow>
                  fst (NewLevelDB env (ExpandEnv env defaultPath) None) \<noteq> None"
      and prefixes: "AccountAddr (PrefixCfg env) \<noteq> [] \<and> ValidatorAddr (PrefixCfg env) \<noteq> [] \<and>
                     ConsensusAddr (PrefixCfg env) \<noteq> [] \<and> AccountPub (PrefixCfg env) \<noteq> [] \<and>
                     ValidatorPub (PrefixCfg env) \<noteq> [] \<and> ConsensusPub (PrefixCfg env) \<noteq> []"
      and number:
        "GasAdjustment (fst (applyOptions options (initialConfig uri grpcAddr chainID))) \<noteq> NaN"
  shows "0 < Gas cfg \<and> 0 < Timeout cfg \<and> 0 < MaxTxBytes cfg \<and> 0 < TxSizeLimit cfg \<and>
         float64_gt_zero (GasAdjustment cfg) \<and>
         \<not> DecCoins_Empty env (Fee cfg) \<and> DecCoins_IsValid env (Fee cfg) \<and>
         Algo cfg \<noteq> [] \<and> Mode cfg \<noteq> [] \<and> Level cfg \<noteq> [] \<and> BIP44Path cfg \<noteq> [] \<and>
         KeyDAO cfg \<noteq> None \<and> TokenManager cfg \<noteq> None \<and>
         AccountAddr (Bech32AddressPrefix cfg) \<noteq> [] \<and>
         ValidatorAddr (Bech32AddressPrefix cfg) \<noteq> [] \<and>
         ConsensusAddr (Bech32AddressPrefix cfg) \<noteq> [] \<and>
         AccountPub (Bech32AddressPrefix cfg) \<noteq> [] \<and>
         ValidatorPub (Bech32AddressPrefix cfg) \<noteq> [] \<and>
         ConsensusPub (Bech32AddressPrefix cfg) \<noteq> []"
proof -
  let ?c = "fst (applyOptions options (initialConfig uri grpcAddr chainID))"
  have chk: "checkAndSetDefault env ?c = (cfg, None)"
    using NewClientConfig_success [OF built] by simp
  note f = checkAndSetDefault_success [OF chk]
  have gas: "0 < Gas cfg" using f by (simp add: word_gt_0 defaultGas_def)
  have timeout: "0 < Timeout cfg" using f by (simp add: word_gt_0 defaultTimeout_def)
  have bytes: "0 < MaxTxBytes cfg" using f by (simp add: word_gt_0 defaultMaxTxsBytes_def)
  have limit: "0 < TxSizeLimit cfg" using f by (simp add: word_gt_0 defaultTxSizeLimit_def)
  have adj: "float64_gt_zero (GasAdjustment cfg)"
    using f number by (simp add: float64_gt_zero_iff defaultGasAdjustment_def)
  have fee': "\<not> DecCoins_Empty env (Fee cfg) \<and> DecCoins_IsValid env (Fee cfg)"
    using f fee by simp
  have strs: "Algo cfg \<noteq> [] \<and> Mode cfg \<noteq> [] \<and> Level cfg \<noteq> [] \<and> BIP44Path cfg \<noteq> []"
    using f
    by (simp add: defaultAlgo_def defaultMode_def Sync_def defaultLevel_def FullPath_def
        BIP44Prefix_def)
  have dao: "KeyDAO cfg \<noteq> None"
    using f store by (cases "KeyDAO ?c = None") (simp_all del: not_None_eq)
  have tm: "TokenManager cfg \<noteq> None"
    using f by simp
  have pre: "AccountAddr (Bech32AddressPrefix cfg) \<noteq> [] \<and>
         ValidatorAddr (Bech32AddressPrefix cfg) \<noteq> [] \<and>
         ConsensusAddr (Bech32AddressPrefix cfg) \<noteq> [] \<and>
         AccountPub (Bech32AddressPrefix cfg) \<noteq> [] \<and>
         ValidatorPub (Bech32AddressPrefix cfg) \<noteq> [] \<and>
         ConsensusPub (Bech32AddressPrefix cfg) \<noteq> []"
    using f prefixes by simp
  show ?thesis
    using gas timeout bytes limit adj fee' strs dao tm pre by simp
qed

subsection \<open>The connection bootstrap, call by call\<close>

lemma NewGRPCClient_done:
  "once s \<Longrightarrow> NewGRPCClient dialer url info s = (Returned GrpcClient, s)"
  by (simp add: NewGRPCClient_def once_Do_def)

lemma bootstrapCalls_done: "once s \<Longrightarrow> bootstrapCalls dialer calls s = s"
  by (induction calls arbitrary: s) (auto simp add: NewGRPCClient_done)

lemma NewGRPCClient_first_fail:
  "\<not> once s \<Longrightarrow> dialer (dialAttempts s) url
       [WithInsecure, WithPerRPCCredentials \<lparr>projectId = ProjectId info, projectKey = ProjectKey info,
                                 chainAccountAddr = ChainAccountAddress info\<rparr>] = Some e \<Longrightarrow>
   NewGRPCClient dialer url info s =
     (Panicked e,
      s\<lparr>once := True, dialAttempts := dialAttempts s + 1, errorLog := errorLog s @ [Error e]\<rparr>)"
  by (simp add: NewGRPCClient_def once_Do_def grpc_Dial_def Let_def)

lemma metadata_three_entries:
  "fst (GetRequestMetadata t ctx uri) =
     [''projectId'' \<mapsto> projectId t, ''projectKey'' \<mapsto> projectKey t,
      ''chainAccountAddress'' \<mapsto> chainAccountAddr t] \<and>
   dom (fst (GetRequestMetadata t ctx uri)) = {''projectId'', ''projectKey'', ''chainAccountAddress''} \<and>
   card (dom (fst (GetRequestMetadata t ctx uri))) = 3"
  by (auto simp add: GetRequestMetadata_def projectIdHeader_def projectKeyHeader_def
      chainAccountAddressHeader_def)

text \<open>
  The library rejects the options that \<open>NewGRPCClient\<close> builds, whatever the network and
  the identity: the connection is insecure and the token requires transport security.
\<close>

lemma checkedDialer_rejects:
  "checkedDialer network n url
     [WithInsecure,
      WithPerRPCCredentials \<lparr>projectId = a, projectKey = b, chainAccountAddr = c\<rparr>] =
   Some errTransportCredentialsMissing"
  by (simp add: checkedDialer_def RequireTransportSecurity_def)

lemma grpc_Dial_rejected:
  "grpc_Dial (checkedDialer network) url
     [WithInsecure,
      WithPerRPCCredentials \<lparr>projectId = a, projectKey = b, chainAccountAddr = c\<rparr>] s =
   ((None, Some errTransportCredentialsMissing), s\<lparr>dialAttempts := dialAttempts s + 1\<rparr>)"
  by (simp add: grpc_Dial_def checkedDialer_rejects)

subsection \<open>Concurrent callers: the invariants\<close>

lemma onceInvariant_start: "onceInvariant K initialGoroutines"
  by (simp add: onceInvariant_def initialGoroutines_def initialProcess_def)

lemma grpc_Dial_effect:
  "grpc_Dial dialer url opts s = ((clientConn, err), s') \<Longrightarrow>
   once s' = once s \<and> dialAttempts s' = dialAttempts s + 1 \<and>
   clientConnSingleton s' = clientConnSingleton s"
  by (auto simp add: grpc_Dial_def Let_def split: option.splits)

lemma inv_owner: "onceInvariant K g \<Longrightarrow> mutex g = Some i \<Longrightarrow> i < K"
  unfolding onceInvariant_def by blast

lemma inv_mutex: "onceInvariant K g \<Longrightarrow> inBody (callers g i) = (mutex g = Some i)"
  unfolding onceInvariant_def by blast

lemma inv_before: "onceInvariant K g \<Longrightarrow> beforeDone (callers g i) \<Longrightarrow> \<not> once (shared g)"
  unfolding onceInvariant_def by blast

lemma inv_past: "onceInvariant K g \<Longrightarrow> pastOnce (callers g i) \<Longrightarrow> once (shared g)"
  unfolding onceInvariant_def by blast

lemma inv_dials:
  "onceInvariant K g \<Longrightarrow>
   dialAttempts (shared g) =
     (if once (shared g) then 1
      else case mutex g of None \<Rightarrow> 0 | Some h \<Rightarrow> if afterDial (callers g h) then 1 else 0)"
  unfolding onceInvariant_def by blast

lemma inv_conns: "onceInvariant K g \<Longrightarrow> dialAttempts (shared g) = 0 \<Longrightarrow> conns (shared g) = []"
  unfolding onceInvariant_def by blast

lemma inv_handle:
  "onceInvariant K g \<Longrightarrow> callers g i = GotConn handle \<Longrightarrow> handle = clientConnSingleton (shared g)"
  unfolding onceInvariant_def by blast

lemma unlock_unlocked: "mutex g = None \<Longrightarrow> g\<lparr>mutex := None\<rparr> = g"
  by (cases g) simp

lemma beforeDone_inBody: "beforeDone p \<Longrightarrow> inBody p"
  by (cases p) simp_all

lemma onceInvariant_exited: "onceInvariant K (g\<lparr>exited := b\<rparr>) = onceInvariant K g"
  by (simp add: onceInvariant_def split: option.split)

lemma still_alive: "\<not> exited g \<Longrightarrow> g\<lparr>exited := False\<rparr> = g"
  by (cases g) simp

lemma advance_alive: "advance recovered dialer url ident i g = Some g' \<Longrightarrow> \<not> exited g"
  by (simp add: advance_def split: if_splits)

lemma onceInvariant_update:
  assumes inv: "onceInvariant K g"
      and i: "i < K"
      and owner: "m' = mutex g \<or> (m' = Some i \<and> mutex g = None) \<or> (m' = None \<and> mutex g = Some i)"
      and body: "inBody p' = (m' = Some i)"
      and before: "once s' \<Longrightarrow> \<not> beforeDone p'"
      and once_kept: "once (shared g) \<Longrightarrow> once s'"
      and once_set: "once s' \<Longrightarrow> \<not> once (shared g) \<Longrightarrow> mutex g = Some i"
      and past: "pastOnce p' \<Longrightarrow> once s'"
      and dials: "dialAttempts s' =
                    (if once s' then 1
                     else case m' of None \<Rightarrow> 0
                          | Some h \<Rightarrow> if afterDial (if h = i then p' else callers g h) then 1 else 0)"
      and conns: "dialAttempts s' = 0 \<Longrightarrow> conns s' = []"
      and handle_kept: "once (shared g) \<Longrightarrow> clientConnSingleton s' = clientConnSingleton (shared g)"
      and handle_read: "\<And>handle. p' = GotConn handle \<Longrightarrow> handle = clientConnSingleton s'"
  shows "onceInvariant K (g\<lparr>callers := (callers g)(i := p'), shared := s', mutex := m'\<rparr>)"
  unfolding onceInvariant_def
proof (intro conjI allI impI)
  let ?g' = "g\<lparr>callers := (callers g)(i := p'), shared := s', mutex := m'\<rparr>"
  fix j
  assume "mutex ?g' = Some j"
  then have "m' = Some j" by simp
  then show "j < K"
    using owner i inv_owner [OF inv, of j] by auto
next
  let ?g' = "g\<lparr>callers := (callers g)(i := p'), shared := s', mutex := m'\<rparr>"
  fix j
  show "inBody (callers ?g' j) = (mutex ?g' = Some j)"
  proof (cases "j = i")
    case True
    then show ?thesis using body by simp
  next
    case False
    have "(m' = Some j) = (mutex g = Some j)"
      using owner False by auto
    then show ?thesis using False inv_mutex [OF inv, of j] by simp
  qed
next
  let ?g' = "g\<lparr>callers := (callers g)(i := p'), shared := s', mutex := m'\<rparr>"
  fix j
  assume bd: "beforeDone (callers ?g' j)"
  show "\<not> once (shared ?g')"
  proof (cases "j = i")
    case True
    then show ?thesis using bd before by auto
  next
    case False
    then have old: "beforeDone (callers g j)" using bd by simp
    then have "\<not> once (shared g)" and "mutex g = Some j"
      using inv_before [OF inv old] inv_mutex [OF inv, of j] beforeDone_inBody [OF old] by simp_all
    then show ?thesis using once_set False by auto
  qed
next
  let ?g' = "g\<lparr>callers := (callers g)(i := p'), shared := s', mutex := m'\<rparr>"
  fix j
  assume po: "pastOnce (callers ?g' j)"
  show "once (shared ?g')"
  proof (cases "j = i")
    case True
    then show ?thesis using po past by simp
  next
    case False
    then have "pastOnce (callers g j)" using po by simp
    then show ?thesis using inv_past [OF inv] once_kept by simp
  qed
next
  let ?g' = "g\<lparr>callers := (callers g)(i := p'), shared := s', mutex := m'\<rparr>"
  show "dialAttempts (shared ?g') =
       (if once (shared ?g') then 1
        else case mutex ?g' of None \<Rightarrow> 0
          | Some h \<Rightarrow> if afterDial (callers ?g' h) then 1 else 0)"
    using dials by (simp split: option.splits)
next
  let ?g' = "g\<lparr>callers := (callers g)(i := p'), shared := s', mutex := m'\<rparr>"
  assume "dialAttempts (shared ?g') = 0"
  then show "conns (shared ?g') = []"
    using conns by simp
next
  let ?g' = "g\<lparr>callers := (callers g)(i := p'), shared := s', mutex := m'\<rparr>"
  fix j handle
  assume gc: "callers ?g' j = GotConn handle"
  show "handle = clientConnSingleton (shared ?g')"
  proof (cases "j = i")
    case True
    then show ?thesis using gc handle_read by simp
  next
    case False
    then have old: "callers g j = GotConn handle" using gc by simp
    then have "pastOnce (callers g j)" by simp
    then have "once (shared g)" using inv_past [OF inv] by blast
    then show ?thesis using inv_handle [OF inv old] handle_kept by simp
  qed
qed

lemma onceInvariant_advance:
  assumes inv: "onceInvariant K g" and i: "i < K"
      and adv: "advance recovered dialer url ident i g = Some g'"
  shows "onceInvariant K g'"
proof -
  note at_i = inv_mutex [OF inv, of i] inv_before [OF inv, of i] inv_past [OF inv, of i]
    inv_dials [OF inv] inv_conns [OF inv]
  note alive = advance_alive [OF adv]
  show ?thesis
  proof (cases "callers g i")
    case Calling
    have "onceInvariant K
            (g\<lparr>callers := (callers g)(i := (if once (shared g) then HasClient else Waiting)),
               shared := shared g, mutex := mutex g\<rparr>)"
      by (rule onceInvariant_update [OF inv i])
        (insert at_i Calling, auto split: option.splits if_splits)
    then show ?thesis using adv alive Calling by (auto simp add: advance_def split: if_splits)
  next
    case Waiting
    have free: "mutex g = None"
      using adv alive Waiting by (auto simp add: advance_def split: if_splits)
    have "onceInvariant K
            (g\<lparr>callers := (callers g)(i := (if once (shared g) then HasClient else Dialing)),
               shared := shared g, mutex := (if once (shared g) then mutex g else Some i)\<rparr>)"
      by (rule onceInvariant_update [OF inv i])
        (insert at_i Waiting free, auto split: option.splits if_splits)
    then show ?thesis using adv alive Waiting free
      by (auto simp add: advance_def unlock_unlocked split: if_splits)
  next
    case Dialing
    obtain clientConn err s' where dial:
      "grpc_Dial dialer url
         [WithInsecure,
          WithPerRPCCredentials
            \<lparr>projectId = ProjectId (ident i), projectKey = ProjectKey (ident i),
             chainAccountAddr = ChainAccountAddress (ident i)\<rparr>] (shared g) =
       ((clientConn, err), s')"
      by (metis prod.collapse)
    have g': "g' = g\<lparr>callers := (callers g)(i := Dialed clientConn err), shared := s'\<rparr>"
      using adv alive Dialing dial by (simp add: advance_def)
    note eff = grpc_Dial_effect [OF dial]
    have "onceInvariant K
            (g\<lparr>callers := (callers g)(i := Dialed clientConn err), shared := s',
               mutex := mutex g\<rparr>)"
      by (rule onceInvariant_update [OF inv i])
        (insert at_i Dialing eff, auto split: option.splits if_splits)
    then show ?thesis unfolding g' by simp
  next
    case (Dialed clientConn err)
    show ?thesis
    proof (cases err)
      case None
      have "onceInvariant K
              (g\<lparr>callers := (callers g)(i := Stored),
                 shared := (shared g)\<lparr>clientConnSingleton := clientConn\<rparr>, mutex := mutex g\<rparr>)"
        by (rule onceInvariant_update [OF inv i])
          (insert at_i Dialed, auto split: option.splits if_splits)
      then show ?thesis using adv alive Dialed None by (simp add: advance_def)
    next
      case (Some e)
      have "onceInvariant K
              (g\<lparr>callers := (callers g)(i := Failing e),
                 shared := (shared g)\<lparr>errorLog := errorLog (shared g) @ [Error e]\<rparr>,
                 mutex := mutex g\<rparr>)"
        by (rule onceInvariant_update [OF inv i])
          (insert at_i Dialed, auto split: option.splits if_splits)
      then show ?thesis using adv alive Dialed Some by (simp add: advance_def)
    qed
  next
    case Stored
    have "onceInvariant K
            (g\<lparr>callers := (callers g)(i := Finishing None),
               shared := (shared g)\<lparr>once := True\<rparr>, mutex := mutex g\<rparr>)"
      by (rule onceInvariant_update [OF inv i])
        (insert at_i Stored, auto split: option.splits if_splits)
    then show ?thesis using adv alive Stored by (simp add: advance_def)
  next
    case (Failing e)
    have "onceInvariant K
            (g\<lparr>callers := (callers g)(i := Finishing (Some e)),
               shared := (shared g)\<lparr>once := True\<rparr>, mutex := mutex g\<rparr>)"
      by (rule onceInvariant_update [OF inv i])
        (insert at_i Failing, auto split: option.splits if_splits)
    then show ?thesis using adv alive Failing by (simp add: advance_def)
  next
    case (Finishing panic)
    have "onceInvariant K
            (g\<lparr>callers := (callers g)(i := (case panic of None \<Rightarrow> HasClient | Some e \<Rightarrow> Crashed e)),
               shared := shared g, mutex := None\<rparr>)"
      by (rule onceInvariant_update [OF inv i])
        (insert at_i Finishing, auto split: option.splits if_splits)
    then show ?thesis using adv alive Finishing
      by (cases panic) (auto simp add: advance_def onceInvariant_exited)
  next
    case HasClient
    have "onceInvariant K
            (g\<lparr>callers := (callers g)(i := GotConn (fst (GenConn GrpcClient (shared g)))),
               shared := shared g, mutex := mutex g\<rparr>)"
      by (rule onceInvariant_update [OF inv i])
        (insert at_i HasClient, auto simp add: GenConn_def split: option.splits if_splits)
    then show ?thesis using adv alive HasClient by (simp add: advance_def)
  next
    case (Crashed e)
    then show ?thesis using adv by (simp add: advance_def split: if_splits)
  next
    case (GotConn handle)
    then show ?thesis using adv by (simp add: advance_def split: if_splits)
  qed
qed

lemma reachable_onceInvariant:
  "reachable recovered dialer K url ident g \<Longrightarrow> onceInvariant K g"
proof (induction rule: reachable.induct)
  case start
  show ?case by (rule onceInvariant_start)
next
  case (move g i g')
  then show ?case using onceInvariant_advance by blast
qed

lemma rej_pc: "rejectedInvariant recovered K g \<Longrightarrow> rejected (callers g i)"
  unfolding rejectedInvariant_def by blast

lemma rej_conns: "rejectedInvariant recovered K g \<Longrightarrow> conns (shared g) = []"
  unfolding rejectedInvariant_def by blast

lemma rej_handle: "rejectedInvariant recovered K g \<Longrightarrow> clientConnSingleton (shared g) = None"
  unfolding rejectedInvariant_def by blast

lemma rej_single:
  "rejectedInvariant recovered K g \<Longrightarrow> ranBody (callers g i) \<Longrightarrow> ranBody (callers g j) \<Longrightarrow> i = j"
  unfolding rejectedInvariant_def by blast

lemma rej_once:
  "rejectedInvariant recovered K g \<Longrightarrow> once (shared g) \<Longrightarrow> \<exists>i<K. panicking (callers g i)"
  unfolding rejectedInvariant_def by blast

lemma rej_exited:
  "rejectedInvariant recovered K g \<Longrightarrow> exited g \<Longrightarrow>
   \<not> recovered \<and> (\<exists>i<K. callers g i = Crashed errTransportCredentialsMissing)"
  unfolding rejectedInvariant_def by blast

lemma rejectedInvariant_start: "rejectedInvariant recovered K initialGoroutines"
  by (simp add: rejectedInvariant_def initialGoroutines_def initialProcess_def)

lemma ranBody_cases: "ranBody p \<Longrightarrow> inBody p \<or> pastOnce p"
  by (cases p) simp_all

lemma nobody_ran:
  assumes inv: "onceInvariant K g" and free: "mutex g = None" and unset: "\<not> once (shared g)"
  shows "\<not> ranBody (callers g j)"
proof
  assume "ranBody (callers g j)"
  then have "inBody (callers g j) \<or> pastOnce (callers g j)"
    by (rule ranBody_cases)
  then show False
    using inv_mutex [OF inv, of j] inv_past [OF inv, of j] free unset by auto
qed

lemma rejectedInvariant_update:
  assumes inv: "rejectedInvariant recovered K g"
      and i: "i < K"
      and pc: "rejected p'"
      and no_conns: "conns s' = []"
      and no_handle: "clientConnSingleton s' = None"
      and single: "ranBody p' \<Longrightarrow> ranBody (callers g i) \<or> (\<forall>j. \<not> ranBody (callers g j))"
      and flag_set: "once s' \<Longrightarrow> \<not> once (shared g) \<Longrightarrow> panicking p'"
      and panic_kept: "panicking (callers g i) \<Longrightarrow> panicking p'"
      and ended: "e' \<Longrightarrow> \<not> recovered \<and> (exited g \<or> p' = Crashed errTransportCredentialsMissing)"
      and crash_kept: "callers g i = Crashed errTransportCredentialsMissing \<Longrightarrow>
                       p' = Crashed errTransportCredentialsMissing"
  shows "rejectedInvariant recovered K
           (g\<lparr>callers := (callers g)(i := p'), shared := s', mutex := m', exited := e'\<rparr>)"
  unfolding rejectedInvariant_def
proof (intro conjI allI impI)
  let ?g' = "g\<lparr>callers := (callers g)(i := p'), shared := s', mutex := m', exited := e'\<rparr>"
  fix j
  show "rejected (callers ?g' j)"
    using pc rej_pc [OF inv, of j] by (cases "j = i") simp_all
next
  let ?g' = "g\<lparr>callers := (callers g)(i := p'), shared := s', mutex := m', exited := e'\<rparr>"
  show "conns (shared ?g') = []"
    using no_conns by simp
next
  let ?g' = "g\<lparr>callers := (callers g)(i := p'), shared := s', mutex := m', exited := e'\<rparr>"
  show "clientConnSingleton (shared ?g') = None"
    using no_handle by simp
next
  let ?g' = "g\<lparr>callers := (callers g)(i := p'), shared := s', mutex := m', exited := e'\<rparr>"
  fix j k
  assume rj: "ranBody (callers ?g' j)" and rk: "ranBody (callers ?g' k)"
  show "j = k"
  proof (cases "j = i")
    case ji: True
    show ?thesis
    proof (cases "k = i")
      case True
      then show ?thesis using ji by simp
    next
      case False
      then have old: "ranBody (callers g k)" using rk by simp
      have "ranBody p'" using rj ji by simp
      then have "ranBody (callers g i)" using single old by blast
      then show ?thesis using rej_single [OF inv _ old, of i] ji by simp
    qed
  next
    case ji: False
    then have oldj: "ranBody (callers g j)" using rj by simp
    show ?thesis
    proof (cases "k = i")
      case True
      then have "ranBody p'" using rk by simp
      then have "ranBody (callers g i)" using single oldj by blast
      then show ?thesis using rej_single [OF inv oldj, of i] True by simp
    next
      case False
      then have "ranBody (callers g k)" using rk by simp
      then show ?thesis using rej_single [OF inv oldj] by simp
    qed
  qed
next
  let ?g' = "g\<lparr>callers := (callers g)(i := p'), shared := s', mutex := m', exited := e'\<rparr>"
  assume "once (shared ?g')"
  then have flagged: "once s'" by simp
  show "\<exists>j<K. panicking (callers ?g' j)"
  proof (cases "once (shared g)")
    case True
    then obtain j where j: "j < K" "panicking (callers g j)"
      using rej_once [OF inv] by blast
    show ?thesis
    proof (cases "j = i")
      case True
      then have "panicking (callers ?g' i)" using j panic_kept by simp
      then show ?thesis using i by blast
    next
      case False
      then have "panicking (callers ?g' j)" using j by simp
      then show ?thesis using j by blast
    qed
  next
    case False
    then have "panicking (callers ?g' i)" using flag_set flagged by simp
    then show ?thesis using i by blast
  qed
next
  let ?g' = "g\<lparr>callers := (callers g)(i := p'), shared := s', mutex := m', exited := e'\<rparr>"
  assume "exited ?g'"
  then show "\<not> recovered" using ended by simp
next
  let ?g' = "g\<lparr>callers := (callers g)(i := p'), shared := s', mutex := m', exited := e'\<rparr>"
  assume "exited ?g'"
  then have e': "e'" by simp
  show "\<exists>j<K. callers ?g' j = Crashed errTransportCredentialsMissing"
  proof (cases "p' = Crashed errTransportCredentialsMissing")
    case True
    then have "callers ?g' i = Crashed errTransportCredentialsMissing" by simp
    then show ?thesis using i by blast
  next
    case False
    then have "exited g" using ended e' by blast
    then obtain j where j: "j < K" "callers g j = Crashed errTransportCredentialsMissing"
      using rej_exited [OF inv] by blast
    then have "j \<noteq> i" using crash_kept False by auto
    then have "callers ?g' j = Crashed errTransportCredentialsMissing" using j by simp
    then show ?thesis using j by blast
  qed
qed

lemma rejectedInvariant_advance:
  assumes i: "i < K"
      and inv: "onceInvariant K g" and rej: "rejectedInvariant recovered K g"
      and adv: "advance recovered (checkedDialer network) url ident i g = Some g'"
  shows "rejectedInvariant recovered K g'"
proof -
  note alive = advance_alive [OF adv]
  note at_i = rej_pc [OF rej, of i] rej_conns [OF rej] rej_handle [OF rej]
    inv_before [OF inv, of i] inv_past [OF inv, of i] alive
  show ?thesis
  proof (cases "callers g i")
    case Calling
    have "rejectedInvariant recovered K
            (g\<lparr>callers := (callers g)(i := (if once (shared g) then HasClient else Waiting)),
               shared := shared g, mutex := mutex g, exited := exited g\<rparr>)"
      by (rule rejectedInvariant_update [OF rej i]) (insert at_i Calling, auto split: if_splits)
    then show ?thesis using adv alive Calling by (auto simp add: advance_def still_alive split: if_splits)
  next
    case Waiting
    have free: "mutex g = None"
      using adv alive Waiting by (auto simp add: advance_def still_alive split: if_splits)
    have nobody: "\<not> once (shared g) \<Longrightarrow> \<not> ranBody (callers g j)" for j
      using nobody_ran [OF inv free] by blast
    have "rejectedInvariant recovered K
            (g\<lparr>callers := (callers g)(i := (if once (shared g) then HasClient else Dialing)),
               shared := shared g, mutex := (if once (shared g) then mutex g else Some i),
               exited := exited g\<rparr>)"
      by (rule rejectedInvariant_update [OF rej i])
        (insert at_i Waiting nobody, auto split: if_splits)
    then show ?thesis using adv alive Waiting free
      by (auto simp add: advance_def unlock_unlocked still_alive split: if_splits)
  next
    case Dialing
    have "rejectedInvariant recovered K
            (g\<lparr>callers := (callers g)(i := Dialed None (Some errTransportCredentialsMissing)),
               shared := (shared g)\<lparr>dialAttempts := dialAttempts (shared g) + 1\<rparr>,
               mutex := mutex g, exited := exited g\<rparr>)"
      by (rule rejectedInvariant_update [OF rej i]) (insert at_i Dialing, auto split: if_splits)
    then show ?thesis using adv alive Dialing
      by (simp add: advance_def grpc_Dial_rejected still_alive)
  next
    case (Dialed clientConn err)
    then have res: "clientConn = None" "err = Some errTransportCredentialsMissing"
      using at_i by simp_all
    have "rejectedInvariant recovered K
            (g\<lparr>callers := (callers g)(i := Failing errTransportCredentialsMissing),
               shared := (shared g)\<lparr>errorLog := errorLog (shared g) @
                 [Error errTransportCredentialsMissing]\<rparr>,
               mutex := mutex g, exited := exited g\<rparr>)"
      by (rule rejectedInvariant_update [OF rej i]) (insert at_i Dialed, auto split: if_splits)
    then show ?thesis using adv alive Dialed res by (simp add: advance_def still_alive)
  next
    case Stored
    then show ?thesis using at_i by simp
  next
    case (Failing e)
    then have e: "e = errTransportCredentialsMissing" using at_i by simp
    have "rejectedInvariant recovered K
            (g\<lparr>callers := (callers g)(i := Finishing (Some errTransportCredentialsMissing)),
               shared := (shared g)\<lparr>once := True\<rparr>, mutex := mutex g, exited := exited g\<rparr>)"
      by (rule rejectedInvariant_update [OF rej i]) (insert at_i Failing, auto split: if_splits)
    then show ?thesis using adv alive Failing e by (simp add: advance_def still_alive)
  next
    case (Finishing panic)
    then have panic: "panic = Some errTransportCredentialsMissing" using at_i by simp
    have "rejectedInvariant recovered K
            (g\<lparr>callers := (callers g)(i := Crashed errTransportCredentialsMissing),
               shared := shared g, mutex := None, exited := \<not> recovered\<rparr>)"
      by (rule rejectedInvariant_update [OF rej i])
        (insert at_i Finishing alive, auto split: if_splits)
    then show ?thesis using adv alive Finishing panic by (simp add: advance_def still_alive)
  next
    case HasClient
    have "rejectedInvariant recovered K
            (g\<lparr>callers := (callers g)(i := GotConn (fst (GenConn GrpcClient (shared g)))),
               shared := shared g, mutex := mutex g, exited := exited g\<rparr>)"
      by (rule rejectedInvariant_update [OF rej i]) (insert at_i HasClient, auto split: if_splits)
    then show ?thesis using adv alive HasClient by (simp add: advance_def still_alive)
  next
    case (Crashed e)
    then show ?thesis using adv by (simp add: advance_def split: if_splits)
  next
    case (GotConn handle)
    then show ?thesis using adv by (simp add: advance_def split: if_splits)
  qed
qed

lemma reachable_rejectedInvariant:
  "reachable recovered (checkedDialer network) K url ident g \<Longrightarrow> rejectedInvariant recovered K g"
proof (induction rule: reachable.induct)
  case start
  show ?case by (rule rejectedInvariant_start)
next
  case (move g i g')
  show ?case
    using move.hyps(2) reachable_onceInvariant [OF move.hyps(1)] move.IH move.hyps(3)
    by (rule rejectedInvariant_advance)
qed

lemma reachable_run:
  "reachable recovered dialer K url ident g \<Longrightarrow> \<forall>i\<in>set schedule. i < K \<Longrightarrow>
   reachable recovered dialer K url ident (run recovered dialer url ident schedule g)"
proof (induction schedule arbitrary: g)
  case Nil
  then show ?case by simp
next
  case (Cons i schedule)
  show ?case
  proof (cases "advance recovered dialer url ident i g")
    case None
    then show ?thesis using Cons by simp
  next
    case (Some g')
    have "reachable recovered dialer K url ident g'"
      using Cons.prems Some by (auto intro: reachable.move)
    then show ?thesis using Cons Some by simp
  qed
qed

text \<open>
  No deadlock and termination: while the process lives, a caller that cannot move has
  finished or waits for a mutex whose holder can move, and every step lowers
  \<open>remaining\<close>; so every run ends, with the process ended or all callers finished.
\<close>

lemma blocked_only_waiting:
  "advance recovered dialer url ident i g = None \<Longrightarrow>
   exited g \<or> finished (callers g i) \<or> (callers g i = Waiting \<and> mutex g \<noteq> None)"
  by (cases "callers g i")
    (auto simp add: advance_def Let_def split_def split: if_splits option.splits)

lemma holder_moves:
  "\<not> exited g \<Longrightarrow> inBody (callers g h) \<Longrightarrow> advance recovered dialer url ident h g \<noteq> None"
  by (cases "callers g h") (auto simp add: advance_def Let_def split_def split: option.splits)

lemma quiescent_finished:
  assumes inv: "onceInvariant K g"
      and quiet: "\<forall>i<K. advance recovered dialer url ident i g = None"
      and alive: "\<not> exited g"
      and i: "i < K"
  shows "finished (callers g i)"
proof (rule ccontr)
  assume "\<not> finished (callers g i)"
  then have "mutex g \<noteq> None"
    using blocked_only_waiting [of recovered dialer url ident i g] quiet alive i by auto
  then obtain h where h: "mutex g = Some h" by auto
  then have "h < K" and "inBody (callers g h)"
    using inv_owner [OF inv h] inv_mutex [OF inv, of h] by simp_all
  then show False
    using holder_moves [OF alive, of h recovered dialer url ident] quiet by auto
qed

lemma advance_decreases:
  assumes i: "i < K" and adv: "advance recovered dialer url ident i g = Some g'"
  shows "remaining K g' < remaining K g"
proof -
  have others: "callers g' j = callers g j" if "j \<noteq> i" for j
    using adv that
    by (cases "callers g i")
      (auto simp add: advance_def Let_def split_def split: if_splits option.splits)
  have mine: "stepsLeft (callers g' i) < stepsLeft (callers g i)"
    using adv
    by (cases "callers g i")
      (auto simp add: advance_def Let_def split_def split: if_splits option.splits)
  have fin: "finite {..<K}" and mem: "i \<in> {..<K}"
    using i by simp_all
  have rest: "(\<Sum>j\<in>{..<K} - {i}. stepsLeft (callers g' j)) =
              (\<Sum>j\<in>{..<K} - {i}. stepsLeft (callers g j))"
    by (rule sum.cong) (simp_all add: others)
  have "remaining K g' = stepsLeft (callers g' i) + (\<Sum>j\<in>{..<K} - {i}. stepsLeft (callers g' j))"
    unfolding remaining_def by (rule sum.remove [OF fin mem])
  moreover have "remaining K g = stepsLeft (callers g i) + (\<Sum>j\<in>{..<K} - {i}. stepsLeft (callers g j))"
    unfolding remaining_def by (rule sum.remove [OF fin mem])
  ultimately show ?thesis using mine rest by simp
qed

text \<open>
  With the library's dialer, a run of one caller or more that has come to its end has a
  caller that left the call with the panic; the callers still running then, if the panic
  was recovered from, all hold the nil pointer.
\<close>

lemma quiescent_crashed:
  assumes inv: "onceInvariant K g" and rej: "rejectedInvariant recovered K g"
      and quiet: "\<forall>i<K. advance recovered dialer url ident i g = None"
      and K: "0 < K"
  shows "\<exists>i<K. callers g i = Crashed errTransportCredentialsMissing"
proof (cases "exited g")
  case True
  then show ?thesis using rej_exited [OF rej] by blast
next
  case False
  have fin: "finished (callers g i)" if "i < K" for i
    using quiescent_finished [OF inv quiet False that] .
  have "pastOnce (callers g 0)"
    using fin [OF K] by (cases "callers g 0") simp_all
  then have "once (shared g)"
    using inv_past [OF inv] by blast
  then obtain j where j: "j < K" "panicking (callers g j)"
    using rej_once [OF rej] by blast
  then obtain e where "callers g j = Crashed e"
    using fin [OF j(1)] by (cases "callers g j") simp_all
  then have "callers g j = Crashed errTransportCredentialsMissing"
    using rej_pc [OF rej, of j] by simp
  then show ?thesis using j by blast
qed

lemma quiescent_nil:
  assumes inv: "onceInvariant K g" and rej: "rejectedInvariant recovered K g"
      and quiet: "\<forall>i<K. advance recovered dialer url ident i g = None"
      and recovered: "recovered" and i: "i < K"
  shows "callers g i = Crashed errTransportCredentialsMissing \<or> callers g i = GotConn None"
proof -
  have alive: "\<not> exited g"
    using rej_exited [OF rej] recovered by blast
  have "finished (callers g i)"
    using quiescent_finished [OF inv quiet alive i] .
  then show ?thesis
    using rej_pc [OF rej, of i] inv_handle [OF inv, of i] rej_handle [OF rej]
    by (cases "callers g i") simp_all
qed

section \<open>The claims\<close>

text \<open>
  Claim C1, as the code has it. With an empty node URI or an empty chain id the constructor
  fails and returns the zero configuration, for every list of options that leave those two
  fields alone (all options of the file do). The options run before the two fields are
  checked: when one of them fails, its error is the one returned; when all succeed, the
  error is one of the two MissingRequiredField errors.
\<close>

theorem missing_required_field:
  assumes keeps: "\<forall>optionFn\<in>set options. leaves NodeURI optionFn \<and> leaves ChainID optionFn"
      and empty: "uri = [] \<or> chainID = []"
  shows "\<exists>err. NewClientConfig env uri grpcAddr chainID options = (zeroClientConfig, Some err) \<and>
           (case snd (applyOptions options (initialConfig uri grpcAddr chainID)) of
              Some optionErr \<Rightarrow> err = optionErr
            | None \<Rightarrow> MissingRequiredField err)"
proof -
  let ?r = "applyOptions options (initialConfig uri grpcAddr chainID)"
  have uri: "NodeURI (fst ?r) = uri"
    using keeps applyOptions_leaves [of options NodeURI] by (simp add: initialConfig_def)
  have chain: "ChainID (fst ?r) = chainID"
    using keeps applyOptions_leaves [of options ChainID] by (simp add: initialConfig_def)
  show ?thesis
  proof (cases "snd ?r")
    case (Some optionErr)
    then show ?thesis using NewClientConfig_options_err by simp
  next
    case None
    have "\<exists>err. snd (checkAndSetDefault env (fst ?r)) = Some err \<and> MissingRequiredField err"
      using empty uri chain by (auto simp add: checkAndSetDefault_def MissingRequiredField_def)
    then show ?thesis using None NewClientConfig_check_err by auto
  qed
qed

theorem missing_required_field_witness:
  "NewClientConfig sampleEnv [] ''localhost:9090'' ''irishub-1''
     [GasOption 7, KeyDAOOption sampleEnv None] =
     (zeroClientConfig, Some (Errorf ''nodeURI is required'')) \<and>
   NewClientConfig sampleEnv ''tcp://localhost:26657'' ''localhost:9090'' []
     [GasOption 7, KeyDAOOption sampleEnv None] =
     (zeroClientConfig, Some (Errorf ''chainID is required''))"
proof -
  have keeps: "\<forall>optionFn\<in>set [GasOption 7, KeyDAOOption sampleEnv None].
                 leaves NodeURI optionFn \<and> leaves ChainID optionFn"
    by (simp add: options_leave_required)
  have ok: "snd (applyOptions [GasOption 7, KeyDAOOption sampleEnv None] (initialConfig uri g c)) = None"
    for uri g c
    by (simp add: GasOption_def KeyDAOOption_def sampleEnv_def split_def)
  have a: "\<exists>err. NewClientConfig sampleEnv [] ''localhost:9090'' ''irishub-1''
     [GasOption 7, KeyDAOOption sampleEnv None] = (zeroClientConfig, Some err) \<and> MissingRequiredField err"
    using missing_required_field [OF keeps, where uri = "[]" and chainID = "''irishub-1''"
        and grpcAddr = "''localhost:9090''" and env = sampleEnv] ok by simp
  have b: "\<exists>err. NewClientConfig sampleEnv ''tcp://localhost:26657'' ''localhost:9090'' []
     [GasOption 7, KeyDAOOption sampleEnv None] = (zeroClientConfig, Some err) \<and> MissingRequiredField err"
    using missing_required_field [OF keeps, where uri = "''tcp://localhost:26657''" and chainID = "[]"
        and grpcAddr = "''localhost:9090''" and env = sampleEnv] ok by simp
  have a': "snd (NewClientConfig sampleEnv [] ''localhost:9090'' ''irishub-1''
     [GasOption 7, KeyDAOOption sampleEnv None]) = Some (Errorf ''nodeURI is required'')"
    by (simp add: NewClientConfig_def initialConfig_def GasOption_def KeyDAOOption_def
        sampleEnv_def checkAndSetDefault_def split_def)
  have b': "snd (NewClientConfig sampleEnv ''tcp://localhost:26657'' ''localhost:9090'' []
     [GasOption 7, KeyDAOOption sampleEnv None]) = Some (Errorf ''chainID is required'')"
    by (simp add: NewClientConfig_def initialConfig_def GasOption_def KeyDAOOption_def
        sampleEnv_def checkAndSetDefault_def split_def)
  show ?thesis using a b a' b' by auto
qed

text \<open>
  Claim C1 as stated fails: with an empty node URI and the option \<open>KeyDAOOption nil\<close>, a
  key store that cannot be opened makes the constructor return the store's error, which
  is not a MissingRequiredField error.
\<close>

theorem store_error_precedes_required_check:
  "NewClientConfig lockedStoreEnv [] ''localhost:9090'' ''irishub-1''
     [KeyDAOOption lockedStoreEnv None] =
     (zeroClientConfig, Some (ExternalError ''resource temporarily unavailable'')) \<and>
   \<not> MissingRequiredField (ExternalError ''resource temporarily unavailable'')"
  by (simp add: NewClientConfig_def initialConfig_def KeyDAOOption_def lockedStoreEnv_def
      sampleEnv_def MissingRequiredField_def split_def)

text \<open>
  Claim C2 at the input where the code breaks it. \<open>GasAdjustmentOption\<close> replaces a value
  only when \<^verbatim>\<open>gasAdjustment <= 0\<close>, which is false for NaN: the constructor succeeds and
  the gas adjustment of the configuration is NaN, which is not positive.
\<close>

theorem nan_gas_adjustment_survives:
  "snd (NewClientConfig sampleEnv ''tcp://localhost:26657'' ''localhost:9090'' ''irishub-1''
          [GasAdjustmentOption NaN]) = None \<and>
   GasAdjustment
     (fst (NewClientConfig sampleEnv ''tcp://localhost:26657'' ''localhost:9090'' ''irishub-1''
             [GasAdjustmentOption NaN])) = NaN \<and>
   float64_gt_zero
     (GasAdjustment
       (fst (NewClientConfig sampleEnv ''tcp://localhost:26657'' ''localhost:9090'' ''irishub-1''
               [GasAdjustmentOption NaN]))) = False"
proof -
  let ?c = "(initialConfig ''tcp://localhost:26657'' ''localhost:9090'' ''irishub-1'')
              \<lparr>GasAdjustment := NaN\<rparr>"
  have err: "snd (checkAndSetDefault sampleEnv ?c) = None"
    by (simp add: checkAndSetDefault_error initialConfig_def zeroClientConfig_def sampleEnv_def)
  then have chk: "checkAndSetDefault sampleEnv ?c = (fst (checkAndSetDefault sampleEnv ?c), None)"
    by (simp add: prod_eq_iff)
  have adj: "GasAdjustment (fst (checkAndSetDefault sampleEnv ?c)) = NaN"
    using checkAndSetDefault_success [OF chk] by simp
  have build: "NewClientConfig sampleEnv ''tcp://localhost:26657'' ''localhost:9090'' ''irishub-1''
          [GasAdjustmentOption NaN] = (fst (checkAndSetDefault sampleEnv ?c), None)"
    using err by (simp add: NewClientConfig_def GasAdjustmentOption_def split_def del: not_None_eq)
  show ?thesis unfolding build using adj by simp
qed

text \<open>
  Claim C3. An address-prefix record with a complete address triple and an incomplete
  pubkey triple, given to \<open>Bech32AddressPrefixOption\<close> anywhere in the option list (the
  later options leaving the field alone), yields on success a configuration whose whole
  six-field record is \<open>PrefixCfg\<close>, the built-in default.
\<close>

theorem bech32_incomplete_pubkeys_default:
  assumes addr: "AccountAddr p \<noteq> [] \<and> ValidatorAddr p \<noteq> [] \<and> ConsensusAddr p \<noteq> []"
      and pub: "AccountPub p = [] \<or> ValidatorPub p = [] \<or> ConsensusPub p = []"
      and after: "\<forall>later\<in>set after. leaves Bech32AddressPrefix later"
      and built: "NewClientConfig env uri grpcAddr chainID
                    (before @ Bech32AddressPrefixOption env p # after) = (cfg, None)"
  shows "Bech32AddressPrefix cfg = PrefixCfg env"
proof -
  let ?r = "applyOptions (before @ Bech32AddressPrefixOption env p # after)
              (initialConfig uri grpcAddr chainID)"
  have ok: "snd ?r = None" and chk: "checkAndSetDefault env (fst ?r) = (cfg, None)"
    using NewClientConfig_success [OF built] by simp_all
  have "\<And>c. Bech32AddressPrefix (fst (Bech32AddressPrefixOption env p c)) = PrefixCfg env"
    using addr pub by (auto simp add: Bech32AddressPrefixOption_def Let_def)
  then have "Bech32AddressPrefix (fst ?r) = PrefixCfg env"
    using applyOptions_last_set [where field = Bech32AddressPrefix, OF ok after] by simp
  then show ?thesis using checkAndSetDefault_success [OF chk] by simp
qed

theorem bech32_incomplete_pubkeys_default_witness:
  "snd (NewClientConfig sampleEnv ''tcp://localhost:26657'' ''localhost:9090'' ''irishub-1''
     [GasOption 7,
      Bech32AddressPrefixOption sampleEnv
        \<lparr>AccountAddr = ''caa'', ValidatorAddr = ''cva'', ConsensusAddr = ''cca'',
         AccountPub = [], ValidatorPub = [], ConsensusPub = []\<rparr>,
      LevelOption ''debug'']) = None \<and>
   Bech32AddressPrefix (fst (NewClientConfig sampleEnv ''tcp://localhost:26657'' ''localhost:9090'' ''irishub-1''
     [GasOption 7,
      Bech32AddressPrefixOption sampleEnv
        \<lparr>AccountAddr = ''caa'', ValidatorAddr = ''cva'', ConsensusAddr = ''cca'',
         AccountPub = [], ValidatorPub = [], ConsensusPub = []\<rparr>,
      LevelOption ''debug''])) =
     \<lparr>AccountAddr = ''iaa'', ValidatorAddr = ''iva'', ConsensusAddr = ''ica'',
      AccountPub = ''iap'', ValidatorPub = ''ivp'', ConsensusPub = ''icp''\<rparr>"
proof -
  let ?p = "\<lparr>AccountAddr = ''caa'', ValidatorAddr = ''cva'', ConsensusAddr = ''cca'',
         AccountPub = [], ValidatorPub = [], ConsensusPub = []\<rparr>"
  let ?build = "NewClientConfig sampleEnv ''tcp://localhost:26657'' ''localhost:9090'' ''irishub-1''
     ([GasOption 7] @ Bech32AddressPrefixOption sampleEnv ?p # [LevelOption ''debug''])"
  have ok: "snd ?build = None"
    by (simp add: NewClientConfig_def initialConfig_def GasOption_def LevelOption_def
        Bech32AddressPrefixOption_def checkAndSetDefault_error KeyDAOOption_def zeroClientConfig_def
        sampleEnv_def split_def)
  then have built: "?build = (fst ?build, None)"
    by (simp add: prod_eq_iff)
  have after: "\<forall>later\<in>set [LevelOption ''debug'']. leaves Bech32AddressPrefix later"
    by (simp add: leaves_def LevelOption_def)
  have "Bech32AddressPrefix (fst ?build) = PrefixCfg sampleEnv"
    using bech32_incomplete_pubkeys_default [OF _ _ after built] by simp
  then show ?thesis using ok by (simp add: sampleEnv_def)
qed

text \<open>
  Claim C4. A fee given to \<open>FeeOption\<close> anywhere in the option list (the later options
  leaving the field alone) that is nil, empty or not valid yields on success exactly the
  parsed default fee string; any other fee is in the configuration unchanged.
\<close>

theorem fee_replaced_or_kept:
  assumes after: "\<forall>later\<in>set after. leaves Fee later"
      and built: "NewClientConfig env uri grpcAddr chainID
                    (before @ FeeOption env fee # after) = (cfg, None)"
  shows "Fee cfg = (if fee = None \<or> DecCoins_Empty env fee \<or> \<not> DecCoins_IsValid env fee
                    then fst (ParseDecCoins env defaultFees) else fee)"
proof -
  let ?r = "applyOptions (before @ FeeOption env fee # after) (initialConfig uri grpcAddr chainID)"
  let ?v = "if fee = None \<or> DecCoins_Empty env fee \<or> \<not> DecCoins_IsValid env fee
            then fst (ParseDecCoins env defaultFees) else fee"
  have ok: "snd ?r = None" and chk: "checkAndSetDefault env (fst ?r) = (cfg, None)"
    using NewClientConfig_success [OF built] by simp_all
  have "\<And>c. Fee (fst (FeeOption env fee c)) = ?v"
    by (simp add: FeeOption_def Let_def)
  then have "Fee (fst ?r) = ?v"
    using applyOptions_last_set [where field = Fee, OF ok after] by simp
  then show ?thesis using checkAndSetDefault_success [OF chk] by auto
qed

theorem fee_replaced_or_kept_witness:
  "Fee (fst (NewClientConfig sampleEnv ''tcp://localhost:26657'' ''localhost:9090'' ''irishub-1''
          [FeeOption sampleEnv (Some []), GasOption 7])) =
     Some [\<lparr>Denom = ''iris'', Amount = 4\<rparr>] \<and>
   Fee (fst (NewClientConfig sampleEnv ''tcp://localhost:26657'' ''localhost:9090'' ''irishub-1''
          [FeeOption sampleEnv (Some [\<lparr>Denom = ''uiris'', Amount = 10\<rparr>]), GasOption 7])) =
     Some [\<lparr>Denom = ''uiris'', Amount = 10\<rparr>]"
proof -
  have after: "\<forall>later\<in>set [GasOption 7]. leaves Fee later"
    by (simp add: leaves_def GasOption_def)
  have ok: "snd (NewClientConfig sampleEnv ''tcp://localhost:26657'' ''localhost:9090'' ''irishub-1''
          ([] @ FeeOption sampleEnv fee # [GasOption 7])) = None" for fee
    by (simp add: NewClientConfig_unfold FeeOption_def GasOption_def checkAndSetDefault_error
        initialConfig_def zeroClientConfig_def sampleEnv_def)
  have fee: "Fee (fst (NewClientConfig sampleEnv ''tcp://localhost:26657'' ''localhost:9090''
                   ''irishub-1'' ([] @ FeeOption sampleEnv fee # [GasOption 7]))) =
             (if fee = None \<or> DecCoins_Empty sampleEnv fee \<or> \<not> DecCoins_IsValid sampleEnv fee
              then fst (ParseDecCoins sampleEnv defaultFees) else fee)" for fee
    using fee_replaced_or_kept [OF after, where before = "[]" and env = sampleEnv and fee = fee]
      ok [of fee]
    by (simp add: prod_eq_iff)
  show ?thesis
    using fee [of "Some []"] fee [of "Some [\<lparr>Denom = ''uiris'', Amount = 10\<rparr>]"]
    by (simp add: sampleEnv_def)
qed

text \<open>
  Claim C5. An option of the file called with a value that its test takes for unset, put
  anywhere in a list of options that are independent of its field, changes nothing: the
  constructor returns the same configuration as without it, succeeds in the same cases,
  and on success the field holds its built-in default. (Only the error may differ, for
  \<open>KeyDAOOption nil\<close>, whose store error then comes before the errors of later options.)
\<close>

theorem falsy_option_same_as_absent:
  assumes falsy: "falsyOptionFor env optionFn indep atDefault"
      and others: "\<forall>other\<in>set before \<union> set after. indep other"
  shows "fst (NewClientConfig env uri grpcAddr chainID (before @ optionFn # after)) =
         fst (NewClientConfig env uri grpcAddr chainID (before @ after)) \<and>
         ((snd (NewClientConfig env uri grpcAddr chainID (before @ optionFn # after)) = None) =
          (snd (NewClientConfig env uri grpcAddr chainID (before @ after)) = None)) \<and>
         (snd (NewClientConfig env uri grpcAddr chainID (before @ optionFn # after)) = None \<longrightarrow>
          atDefault (fst (NewClientConfig env uri grpcAddr chainID (before @ optionFn # after))))"
  using falsy
proof cases
  case (falsyGas gas)
  show ?thesis
    unfolding falsyGas
  proof (rule falsy_insert_full [where upd = Gas_update and field = Gas and d = "defaultGas"
          and P = "\<lambda>v. v = 0"])
    show "GasOption gas cfg = (cfg\<lparr>Gas := defaultGas\<rparr>, None)" for cfg
      using falsyGas by (auto simp add: GasOption_def)
    show "\<forall>other\<in>set before \<union> set after. independentOf Gas_update other"
      using others falsyGas by simp
    show "Gas (cfg\<lparr>Gas := a\<rparr>) = a" for cfg a
      by simp
    show "cfg\<lparr>Gas := Gas cfg\<rparr> = cfg" for cfg
      by simp
    show "(\<lambda>v. v = 0) (Gas (initialConfig uri grpcAddr chainID))"
      by (simp add: initialConfig_def zeroClientConfig_def zeroAddrPrefixCfg_def)
    show "snd (checkAndSetDefault env (cfg\<lparr>Gas := defaultGas\<rparr>)) =
          snd (checkAndSetDefault env cfg)" for cfg
      by (simp add: unset_defaulting_error)
    show "fst (checkAndSetDefault env (cfg\<lparr>Gas := defaultGas\<rparr>)) =
          fst (checkAndSetDefault env cfg)"
      if "Gas cfg = 0"
        and "snd (checkAndSetDefault env cfg) = None" for cfg
      using that by (simp add: unset_defaulting_config)
    show "Gas cfg' = defaultGas"
      if "checkAndSetDefault env cfg = (cfg', None)" "Gas cfg = defaultGas" for cfg cfg'
      using that by (rule defaults_are_kept)
  qed
next
  case (falsyFee fee)
  show ?thesis
    unfolding falsyFee
  proof (rule falsy_insert_full [where upd = Fee_update and field = Fee and d = "fst (ParseDecCoins env defaultFees)"
          and P = "\<lambda>v. v = None \<or> DecCoins_Empty env v \<or> \<not> DecCoins_IsValid env v"])
    show "FeeOption env fee cfg = (cfg\<lparr>Fee := fst (ParseDecCoins env defaultFees)\<rparr>, None)" for cfg
      using falsyFee by (auto simp add: FeeOption_def)
    show "\<forall>other\<in>set before \<union> set after. independentOf Fee_update other"
      using others falsyFee by simp
    show "Fee (cfg\<lparr>Fee := a\<rparr>) = a" for cfg a
      by simp
    show "cfg\<lparr>Fee := Fee cfg\<rparr> = cfg" for cfg
      by simp
    show "(\<lambda>v. v = None \<or> DecCoins_Empty env v \<or> \<not> DecCoins_IsValid env v) (Fee (initialConfig uri grpcAddr chainID))"
      by (simp add: initialConfig_def zeroClientConfig_def zeroAddrPrefixCfg_def)
    show "snd (checkAndSetDefault env (cfg\<lparr>Fee := fst (ParseDecCoins env defaultFees)\<rparr>)) =
          snd (checkAndSetDefault env cfg)" for cfg
      by (simp add: unset_defaulting_error)
    show "fst (checkAndSetDefault env (cfg\<lparr>Fee := fst (ParseDecCoins env defaultFees)\<rparr>)) =
          fst (checkAndSetDefault env cfg)"
      if "Fee cfg = None \<or> DecCoins_Empty env (Fee cfg) \<or> \<not> DecCoins_IsValid env (Fee cfg)"
        and "snd (checkAndSetDefault env cfg) = None" for cfg
      using that by (simp add: unset_defaulting_config)
    show "Fee cfg' = fst (ParseDecCoins env defaultFees)"
      if "checkAndSetDefault env cfg = (cfg', None)" "Fee cfg = fst (ParseDecCoins env defaultFees)" for cfg cfg'
      using that by (rule defaults_are_kept)
  qed
next
  case falsyAlgo
  show ?thesis
    unfolding falsyAlgo
  proof (rule falsy_insert_full [where upd = Algo_update and field = Algo and d = "defaultAlgo"
          and P = "\<lambda>v. v = []"])
    show "AlgoOption [] cfg = (cfg\<lparr>Algo := defaultAlgo\<rparr>, None)" for cfg
      using falsyAlgo by (auto simp add: AlgoOption_def)
    show "\<forall>other\<in>set before \<union> set after. independentOf Algo_update other"
      using others falsyAlgo by simp
    show "Algo (cfg\<lparr>Algo := a\<rparr>) = a" for cfg a
      by simp
    show "cfg\<lparr>Algo := Algo cfg\<rparr> = cfg" for cfg
      by simp
    show "(\<lambda>v. v = []) (Algo (initialConfig uri grpcAddr chainID))"
      by (simp add: initialConfig_def zeroClientConfig_def zeroAddrPrefixCfg_def)
    show "snd (checkAndSetDefault env (cfg\<lparr>Algo := defaultAlgo\<rparr>)) =
          snd (checkAndSetDefault env cfg)" for cfg
      by (simp add: unset_defaulting_error)
    show "fst (checkAndSetDefault env (cfg\<lparr>Algo := defaultAlgo\<rparr>)) =
          fst (checkAndSetDefault env cfg)"
      if "Algo cfg = []"
        and "snd (checkAndSetDefault env cfg) = None" for cfg
      using that by (simp add: unset_defaulting_config)
    show "Algo cfg' = defaultAlgo"
      if "checkAndSetDefault env cfg = (cfg', None)" "Algo cfg = defaultAlgo" for cfg cfg'
      using that by (rule defaults_are_kept)
  qed
next
  case falsyKeyDAO
  have others': "\<forall>other\<in>set before \<union> set after. independentOf KeyDAO_update other"
    using others falsyKeyDAO by simp
  let ?store = "NewLevelDB env (ExpandEnv env defaultPath) None"
  show ?thesis
  proof (cases "snd ?store")
    case None
    show ?thesis
      unfolding falsyKeyDAO
    proof (rule falsy_insert_full [where upd = KeyDAO_update and field = KeyDAO
            and d = "fst ?store" and P = "\<lambda>v. v = None"])
      show "KeyDAOOption env None cfg = (cfg\<lparr>KeyDAO := fst ?store\<rparr>, None)" for cfg
        using None by (simp add: KeyDAOOption_def split_def)
      show "\<forall>other\<in>set before \<union> set after. independentOf KeyDAO_update other"
        using others' .
      show "KeyDAO (cfg\<lparr>KeyDAO := a\<rparr>) = a" for cfg a
        by simp
      show "cfg\<lparr>KeyDAO := KeyDAO cfg\<rparr> = cfg" for cfg
        by simp
      show "KeyDAO (initialConfig uri grpcAddr chainID) = None"
        by (simp add: initialConfig_def zeroClientConfig_def)
      show err: "snd (checkAndSetDefault env (cfg\<lparr>KeyDAO := fst ?store\<rparr>)) =
            snd (checkAndSetDefault env cfg)"
        if "KeyDAO cfg = None" for cfg
        using that None by (simp add: checkAndSetDefault_error)
      show "fst (checkAndSetDefault env (cfg\<lparr>KeyDAO := fst ?store\<rparr>)) =
            fst (checkAndSetDefault env cfg)"
        if unset: "KeyDAO cfg = None" and ok: "snd (checkAndSetDefault env cfg) = None" for cfg
      proof -
        have ok': "snd (checkAndSetDefault env (cfg\<lparr>KeyDAO := fst ?store\<rparr>)) = None"
          using err [OF unset] ok by simp
        show ?thesis
          by (simp add: checkAndSetDefault_fst [OF ok] checkAndSetDefault_fst [OF ok'] unset)
      qed
      show "KeyDAO cfg' = fst ?store"
        if "checkAndSetDefault env cfg = (cfg', None)" "KeyDAO cfg = fst ?store" for cfg cfg'
        using that by (rule defaults_are_kept)
    qed
  next
    case (Some err)
    show ?thesis
      unfolding falsyKeyDAO
      using keyDAO_store_fails [OF Some others', of uri grpcAddr chainID]
      by (metis fst_conv)
  qed
next
  case falsyMode
  show ?thesis
    unfolding falsyMode
  proof (rule falsy_insert_full [where upd = Mode_update and field = Mode and d = "defaultMode"
          and P = "\<lambda>v. v = []"])
    show "ModeOption [] cfg = (cfg\<lparr>Mode := defaultMode\<rparr>, None)" for cfg
      using falsyMode by (auto simp add: ModeOption_def)
    show "\<forall>other\<in>set before \<union> set after. independentOf Mode_update other"
      using others falsyMode by simp
    show "Mode (cfg\<lparr>Mode := a\<rparr>) = a" for cfg a
      by simp
    show "cfg\<lparr>Mode := Mode cfg\<rparr> = cfg" for cfg
      by simp
    show "(\<lambda>v. v = []) (Mode (initialConfig uri grpcAddr chainID))"
      by (simp add: initialConfig_def zeroClientConfig_def zeroAddrPrefixCfg_def)
    show "snd (checkAndSetDefault env (cfg\<lparr>Mode := defaultMode\<rparr>)) =
          snd (checkAndSetDefault env cfg)" for cfg
      by (simp add: unset_defaulting_error)
    show "fst (checkAndSetDefault env (cfg\<lparr>Mode := defaultMode\<rparr>)) =
          fst (checkAndSetDefault env cfg)"
      if "Mode cfg = []"
        and "snd (checkAndSetDefault env cfg) = None" for cfg
      using that by (simp add: unset_defaulting_config)
    show "Mode cfg' = defaultMode"
      if "checkAndSetDefault env cfg = (cfg', None)" "Mode cfg = defaultMode" for cfg cfg'
      using that by (rule defaults_are_kept)
  qed
next
  case (falsyTimeout timeout)
  show ?thesis
    unfolding falsyTimeout
  proof (rule falsy_insert_full [where upd = Timeout_update and field = Timeout and d = "defaultTimeout"
          and P = "\<lambda>v. v = 0"])
    show "TimeoutOption timeout cfg = (cfg\<lparr>Timeout := defaultTimeout\<rparr>, None)" for cfg
      using falsyTimeout by (auto simp add: TimeoutOption_def)
    show "\<forall>other\<in>set before \<union> set after. independentOf Timeout_update other"
      using others falsyTimeout by simp
    show "Timeout (cfg\<lparr>Timeout := a\<rparr>) = a" for cfg a
      by simp
    show "cfg\<lparr>Timeout := Timeout cfg\<rparr> = cfg" for cfg
      by simp
    show "(\<lambda>v. v = 0) (Timeout (initialConfig uri grpcAddr chainID))"
      by (simp add: initialConfig_def zeroClientConfig_def zeroAddrPrefixCfg_def)
    show "snd (checkAndSetDefault env (cfg\<lparr>Timeout := defaultTimeout\<rparr>)) =
          snd (checkAndSetDefault env cfg)" for cfg
      by (simp add: unset_defaulting_error)
    show "fst (checkAndSetDefault env (cfg\<lparr>Timeout := defaultTimeout\<rparr>)) =
          fst (checkAndSetDefault env cfg)"
      if "Timeout cfg = 0"
        and "snd (checkAndSetDefault env cfg) = None" for cfg
      using that by (simp add: unset_defaulting_config)
    show "Timeout cfg' = defaultTimeout"
      if "checkAndSetDefault env cfg = (cfg', None)" "Timeout cfg = defaultTimeout" for cfg cfg'
      using that by (rule defaults_are_kept)
  qed
next
  case falsyLevel
  show ?thesis
    unfolding falsyLevel
  proof (rule falsy_insert_full [where upd = Level_update and field = Level and d = "defaultLevel"
          and P = "\<lambda>v. v = []"])
    show "LevelOption [] cfg = (cfg\<lparr>Level := defaultLevel\<rparr>, None)" for cfg
      using falsyLevel by (auto simp add: LevelOption_def)
    show "\<forall>other\<in>set before \<union> set after. independentOf Level_update other"
      using others falsyLevel by simp
    show "Level (cfg\<lparr>Level := a\<rparr>) = a" for cfg a
      by simp
    show "cfg\<lparr>Level := Level cfg\<rparr> = cfg" for cfg
      by simp
    show "(\<lambda>v. v = []) (Level (initialConfig uri grpcAddr chainID))"
      by (simp add: initialConfig_def zeroClientConfig_def zeroAddrPrefixCfg_def)
    show "snd (checkAndSetDefault env (cfg\<lparr>Level := defaultLevel\<rparr>)) =
          snd (checkAndSetDefault env cfg)" for cfg
      by (simp add: unset_defaulting_error)
    show "fst (checkAndSetDefault env (cfg\<lparr>Level := defaultLevel\<rparr>)) =
          fst (checkAndSetDefault env cfg)"
      if "Level cfg = []"
        and "snd (checkAndSetDefault env cfg) = None" for cfg
      using that by (simp add: unset_defaulting_config)
    show "Level cfg' = defaultLevel"
      if "checkAndSetDefault env cfg = (cfg', None)" "Level cfg = defaultLevel" for cfg cfg'
      using that by (rule defaults_are_kept)
  qed
next
  case (falsyMaxTxBytes maxTxBytes)
  show ?thesis
    unfolding falsyMaxTxBytes
  proof (rule falsy_insert_full [where upd = MaxTxBytes_update and field = MaxTxBytes and d = "defaultMaxTxsBytes"
          and P = "\<lambda>v. v = 0"])
    show "MaxTxBytesOption maxTxBytes cfg = (cfg\<lparr>MaxTxBytes := defaultMaxTxsBytes\<rparr>, None)" for cfg
      using falsyMaxTxBytes by (auto simp add: MaxTxBytesOption_def)
    show "\<forall>other\<in>set before \<union> set after. independentOf MaxTxBytes_update other"
      using others falsyMaxTxBytes by simp
    show "MaxTxBytes (cfg\<lparr>MaxTxBytes := a\<rparr>) = a" for cfg a
      by simp
    show "cfg\<lparr>MaxTxBytes := MaxTxBytes cfg\<rparr> = cfg" for cfg
      by simp
    show "(\<lambda>v. v = 0) (MaxTxBytes (initialConfig uri grpcAddr chainID))"
      by (simp add: initialConfig_def zeroClientConfig_def zeroAddrPrefixCfg_def)
    show "snd (checkAndSetDefault env (cfg\<lparr>MaxTxBytes := defaultMaxTxsBytes\<rparr>)) =
          snd (checkAndSetDefault env cfg)" for cfg
      by (simp add: unset_defaulting_error)
    show "fst (checkAndSetDefault env (cfg\<lparr>MaxTxBytes := defaultMaxTxsBytes\<rparr>)) =
          fst (checkAndSetDefault env cfg)"
      if "MaxTxBytes cfg = 0"
        and "snd (checkAndSetDefault env cfg) = None" for cfg
      using that by (simp add: unset_defaulting_config)
    show "MaxTxBytes cfg' = defaultMaxTxsBytes"
      if "checkAndSetDefault env cfg = (cfg', None)" "MaxTxBytes cfg = defaultMaxTxsBytes" for cfg cfg'
      using that by (rule defaults_are_kept)
  qed
next
  case (falsyGasAdjustment gasAdjustment)
  show ?thesis
    unfolding falsyGasAdjustment
  proof (rule falsy_insert_full [where upd = GasAdjustment_update and field = GasAdjustment and d = "defaultGasAdjustment"
          and P = "float64_le_zero"])
    show "GasAdjustmentOption gasAdjustment cfg = (cfg\<lparr>GasAdjustment := defaultGasAdjustment\<rparr>, None)" for cfg
      using falsyGasAdjustment by (auto simp add: GasAdjustmentOption_def)
    show "\<forall>other\<in>set before \<union> set after. independentOf GasAdjustment_update other"
      using others falsyGasAdjustment by simp
    show "GasAdjustment (cfg\<lparr>GasAdjustment := a\<rparr>) = a" for cfg a
      by simp
    show "cfg\<lparr>GasAdjustment := GasAdjustment cfg\<rparr> = cfg" for cfg
      by simp
    show "(float64_le_zero) (GasAdjustment (initialConfig uri grpcAddr chainID))"
      by (simp add: initialConfig_def zeroClientConfig_def zeroAddrPrefixCfg_def)
    show "snd (checkAndSetDefault env (cfg\<lparr>GasAdjustment := defaultGasAdjustment\<rparr>)) =
          snd (checkAndSetDefault env cfg)" for cfg
      by (simp add: unset_defaulting_error)
    show "fst (checkAndSetDefault env (cfg\<lparr>GasAdjustment := defaultGasAdjustment\<rparr>)) =
          fst (checkAndSetDefault env cfg)"
      if "float64_le_zero (GasAdjustment cfg)"
        and "snd (checkAndSetDefault env cfg) = None" for cfg
      using that by (simp add: unset_defaulting_config)
    show "GasAdjustment cfg' = defaultGasAdjustment"
      if "checkAndSetDefault env cfg = (cfg', None)" "GasAdjustment cfg = defaultGasAdjustment" for cfg cfg'
      using that by (rule defaults_are_kept)
  qed
next
  case falsyCached
  show ?thesis
    unfolding falsyCached
  proof (rule falsy_insert_full [where upd = Cached_update and field = Cached and d = "False"
          and P = "\<lambda>v. v = False"])
    show "CachedOption False cfg = (cfg\<lparr>Cached := False\<rparr>, None)" for cfg
      using falsyCached by (auto simp add: CachedOption_def)
    show "\<forall>other\<in>set before \<union> set after. independentOf Cached_update other"
      using others falsyCached by simp
    show "Cached (cfg\<lparr>Cached := a\<rparr>) = a" for cfg a
      by simp
    show "cfg\<lparr>Cached := Cached cfg\<rparr> = cfg" for cfg
      by simp
    show "(\<lambda>v. v = False) (Cached (initialConfig uri grpcAddr chainID))"
      by (simp add: initialConfig_def zeroClientConfig_def zeroAddrPrefixCfg_def)
    show "snd (checkAndSetDefault env (cfg\<lparr>Cached := False\<rparr>)) =
          snd (checkAndSetDefault env cfg)" for cfg
      by (simp add: unset_defaulting_error)
    show "fst (checkAndSetDefault env (cfg\<lparr>Cached := False\<rparr>)) =
          fst (checkAndSetDefault env cfg)"
      if "Cached cfg = False"
        and "snd (checkAndSetDefault env cfg) = None" for cfg
      using that by (simp add: unset_field_unchanged)
    show "Cached cfg' = False"
      if "checkAndSetDefault env cfg = (cfg', None)" "Cached cfg = False" for cfg cfg'
      using that by (rule defaults_are_kept)
  qed
next
  case falsyTokenManager
  show ?thesis
    unfolding falsyTokenManager
  proof (rule falsy_insert_full [where upd = TokenManager_update and field = TokenManager and d = "Some DefaultTokenManager"
          and P = "\<lambda>v. v = None"])
    show "TokenManagerOption None cfg = (cfg\<lparr>TokenManager := Some DefaultTokenManager\<rparr>, None)" for cfg
      using falsyTokenManager by (auto simp add: TokenManagerOption_def)
    show "\<forall>other\<in>set before \<union> set after. independentOf TokenManager_update other"
      using others falsyTokenManager by simp
    show "TokenManager (cfg\<lparr>TokenManager := a\<rparr>) = a" for cfg a
      by simp
    show "cfg\<lparr>TokenManager := TokenManager cfg\<rparr> = cfg" for cfg
      by simp
    show "(\<lambda>v. v = None) (TokenManager (initialConfig uri grpcAddr chainID))"
      by (simp add: initialConfig_def zeroClientConfig_def zeroAddrPrefixCfg_def)
    show "snd (checkAndSetDefault env (cfg\<lparr>TokenManager := Some DefaultTokenManager\<rparr>)) =
          snd (checkAndSetDefault env cfg)" for cfg
      by (simp add: unset_defaulting_error)
    show "fst (checkAndSetDefault env (cfg\<lparr>TokenManager := Some DefaultTokenManager\<rparr>)) =
          fst (checkAndSetDefault env cfg)"
      if "TokenManager cfg = None"
        and "snd (checkAndSetDefault env cfg) = None" for cfg
      using that by (simp add: unset_defaulting_config)
    show "TokenManager cfg' = Some DefaultTokenManager"
      if "checkAndSetDefault env cfg = (cfg', None)" "TokenManager cfg = Some DefaultTokenManager" for cfg cfg'
      using that by (rule defaults_are_kept)
  qed
next
  case (falsyTxSizeLimit txSizeLimit)
  show ?thesis
    unfolding falsyTxSizeLimit
  proof (rule falsy_insert_full [where upd = TxSizeLimit_update and field = TxSizeLimit and d = "defaultTxSizeLimit"
          and P = "\<lambda>v. v = 0"])
    show "TxSizeLimitOption txSizeLimit cfg = (cfg\<lparr>TxSizeLimit := defaultTxSizeLimit\<rparr>, None)" for cfg
      using falsyTxSizeLimit by (auto simp add: TxSizeLimitOption_def)
    show "\<forall>other\<in>set before \<union> set after. independentOf TxSizeLimit_update other"
      using others falsyTxSizeLimit by simp
    show "TxSizeLimit (cfg\<lparr>TxSizeLimit := a\<rparr>) = a" for cfg a
      by simp
    show "cfg\<lparr>TxSizeLimit := TxSizeLimit cfg\<rparr> = cfg" for cfg
      by simp
    show "(\<lambda>v. v = 0) (TxSizeLimit (initialConfig uri grpcAddr chainID))"
      by (simp add: initialConfig_def zeroClientConfig_def zeroAddrPrefixCfg_def)
    show "snd (checkAndSetDefault env (cfg\<lparr>TxSizeLimit := defaultTxSizeLimit\<rparr>)) =
          snd (checkAndSetDefault env cfg)" for cfg
      by (simp add: unset_defaulting_error)
    show "fst (checkAndSetDefault env (cfg\<lparr>TxSizeLimit := defaultTxSizeLimit\<rparr>)) =
          fst (checkAndSetDefault env cfg)"
      if "TxSizeLimit cfg = 0"
        and "snd (checkAndSetDefault env cfg) = None" for cfg
      using that by (simp add: unset_defaulting_config)
    show "TxSizeLimit cfg' = defaultTxSizeLimit"
      if "checkAndSetDefault env cfg = (cfg', None)" "TxSizeLimit cfg = defaultTxSizeLimit" for cfg cfg'
      using that by (rule defaults_are_kept)
  qed
next
  case falsyKeyManager
  show ?thesis
    unfolding falsyKeyManager
  proof (rule falsy_insert_full [where upd = KeyManager_update and field = KeyManager and d = "None"
          and P = "\<lambda>v. v = None"])
    show "KeyManagerOption None cfg = (cfg\<lparr>KeyManager := None\<rparr>, None)" for cfg
      using falsyKeyManager by (auto simp add: KeyManagerOption_def)
    show "\<forall>other\<in>set before \<union> set after. independentOf KeyManager_update other"
      using others falsyKeyManager by simp
    show "KeyManager (cfg\<lparr>KeyManager := a\<rparr>) = a" for cfg a
      by simp
    show "cfg\<lparr>KeyManager := KeyManager cfg\<rparr> = cfg" for cfg
      by simp
    show "(\<lambda>v. v = None) (KeyManager (initialConfig uri grpcAddr chainID))"
      by (simp add: initialConfig_def zeroClientConfig_def zeroAddrPrefixCfg_def)
    show "snd (checkAndSetDefault env (cfg\<lparr>KeyManager := None\<rparr>)) =
          snd (checkAndSetDefault env cfg)" for cfg
      by (simp add: unset_defaulting_error)
    show "fst (checkAndSetDefault env (cfg\<lparr>KeyManager := None\<rparr>)) =
          fst (checkAndSetDefault env cfg)"
      if "KeyManager cfg = None"
        and "snd (checkAndSetDefault env cfg) = None" for cfg
      using that by (simp add: unset_field_unchanged)
    show "KeyManager cfg' = None"
      if "checkAndSetDefault env cfg = (cfg', None)" "KeyManager cfg = None" for cfg cfg'
      using that by (rule defaults_are_kept)
  qed
next
  case (falsyBech32 p)
  show ?thesis
    unfolding falsyBech32
  proof (rule falsy_insert_full [where upd = Bech32AddressPrefix_update and field = Bech32AddressPrefix and d = "PrefixCfg env"
          and P = "\<lambda>v. AccountAddr v = [] \<or> ValidatorAddr v = [] \<or> ConsensusAddr v = [] \<or> AccountPub v = [] \<or> ValidatorPub v = [] \<or> ConsensusPub v = []"])
    show "Bech32AddressPrefixOption env p cfg = (cfg\<lparr>Bech32AddressPrefix := PrefixCfg env\<rparr>, None)" for cfg
      using falsyBech32 by (auto simp add: Bech32AddressPrefixOption_def)
    show "\<forall>other\<in>set before \<union> set after. independentOf Bech32AddressPrefix_update other"
      using others falsyBech32 by simp
    show "Bech32AddressPrefix (cfg\<lparr>Bech32AddressPrefix := a\<rparr>) = a" for cfg a
      by simp
    show "cfg\<lparr>Bech32AddressPrefix := Bech32AddressPrefix cfg\<rparr> = cfg" for cfg
      by simp
    show "(\<lambda>v. AccountAddr v = [] \<or> ValidatorAddr v = [] \<or> ConsensusAddr v = [] \<or> AccountPub v = [] \<or> ValidatorPub v = [] \<or> ConsensusPub v = []) (Bech32AddressPrefix (initialConfig uri grpcAddr chainID))"
      by (simp add: initialConfig_def zeroClientConfig_def zeroAddrPrefixCfg_def)
    show "snd (checkAndSetDefault env (cfg\<lparr>Bech32AddressPrefix := PrefixCfg env\<rparr>)) =
          snd (checkAndSetDefault env cfg)" for cfg
      by (simp add: unset_defaulting_error)
    show "fst (checkAndSetDefault env (cfg\<lparr>Bech32AddressPrefix := PrefixCfg env\<rparr>)) =
          fst (checkAndSetDefault env cfg)"
      if "AccountAddr (Bech32AddressPrefix cfg) = [] \<or> ValidatorAddr (Bech32AddressPrefix cfg) = [] \<or>
       ConsensusAddr (Bech32AddressPrefix cfg) = [] \<or> AccountPub (Bech32AddressPrefix cfg) = [] \<or>
       ValidatorPub (Bech32AddressPrefix cfg) = [] \<or> ConsensusPub (Bech32AddressPrefix cfg) = []"
        and "snd (checkAndSetDefault env cfg) = None" for cfg
      using that by (simp add: unset_defaulting_config)
    show "Bech32AddressPrefix cfg' = PrefixCfg env"
      if "checkAndSetDefault env cfg = (cfg', None)" "Bech32AddressPrefix cfg = PrefixCfg env" for cfg cfg'
      using that by (rule defaults_are_kept)
  qed
next
  case falsyBIP44Path
  show ?thesis
    unfolding falsyBIP44Path
  proof (rule falsy_insert_full [where upd = BIP44Path_update and field = BIP44Path and d = "FullPath"
          and P = "\<lambda>v. v = []"])
    show "BIP44PathOption [] cfg = (cfg\<lparr>BIP44Path := FullPath\<rparr>, None)" for cfg
      using falsyBIP44Path by (auto simp add: BIP44PathOption_def)
    show "\<forall>other\<in>set before \<union> set after. independentOf BIP44Path_update other"
      using others falsyBIP44Path by simp
    show "BIP44Path (cfg\<lparr>BIP44Path := a\<rparr>) = a" for cfg a
      by simp
    show "cfg\<lparr>BIP44Path := BIP44Path cfg\<rparr> = cfg" for cfg
      by simp
    show "(\<lambda>v. v = []) (BIP44Path (initialConfig uri grpcAddr chainID))"
      by (simp add: initialConfig_def zeroClientConfig_def zeroAddrPrefixCfg_def)
    show "snd (checkAndSetDefault env (cfg\<lparr>BIP44Path := FullPath\<rparr>)) =
          snd (checkAndSetDefault env cfg)" for cfg
      by (simp add: unset_defaulting_error)
    show "fst (checkAndSetDefault env (cfg\<lparr>BIP44Path := FullPath\<rparr>)) =
          fst (checkAndSetDefault env cfg)"
      if "BIP44Path cfg = []"
        and "snd (checkAndSetDefault env cfg) = None" for cfg
      using that by (simp add: unset_defaulting_config)
    show "BIP44Path cfg' = FullPath"
      if "checkAndSetDefault env cfg = (cfg', None)" "BIP44Path cfg = FullPath" for cfg cfg'
      using that by (rule defaults_are_kept)
  qed
next
  case falsyBSNProject
  show ?thesis
    unfolding falsyBSNProject
  proof (rule falsy_insert_full [where upd = BSNProject_update and field = BSNProject and d = "zeroBSNProjectInfo"
          and P = "\<lambda>v. v = zeroBSNProjectInfo"])
    show "BSNProjectInfoOption zeroBSNProjectInfo cfg = (cfg\<lparr>BSNProject := zeroBSNProjectInfo\<rparr>, None)" for cfg
      using falsyBSNProject by (auto simp add: BSNProjectInfoOption_def)
    show "\<forall>other\<in>set before \<union> set after. independentOf BSNProject_update other"
      using others falsyBSNProject by simp
    show "BSNProject (cfg\<lparr>BSNProject := a\<rparr>) = a" for cfg a
      by simp
    show "cfg\<lparr>BSNProject := BSNProject cfg\<rparr> = cfg" for cfg
      by simp
    show "(\<lambda>v. v = zeroBSNProjectInfo) (BSNProject (initialConfig uri grpcAddr chainID))"
      by (simp add: initialConfig_def zeroClientConfig_def zeroAddrPrefixCfg_def)
    show "snd (checkAndSetDefault env (cfg\<lparr>BSNProject := zeroBSNProjectInfo\<rparr>)) =
          snd (checkAndSetDefault env cfg)" for cfg
      by (simp add: unset_defaulting_error)
    show "fst (checkAndSetDefault env (cfg\<lparr>BSNProject := zeroBSNProjectInfo\<rparr>)) =
          fst (checkAndSetDefault env cfg)"
      if "BSNProject cfg = zeroBSNProjectInfo"
        and "snd (checkAndSetDefault env cfg) = None" for cfg
      using that by (simp add: unset_field_unchanged)
    show "BSNProject cfg' = zeroBSNProjectInfo"
      if "checkAndSetDefault env cfg = (cfg', None)" "BSNProject cfg = zeroBSNProjectInfo" for cfg cfg'
      using that by (rule defaults_are_kept)
  qed
qed

theorem falsy_option_same_as_absent_witness:
  "snd (NewClientConfig sampleEnv ''tcp://localhost:26657'' ''localhost:9090'' ''irishub-1''
          [AlgoOption ''sm2'', GasOption 0, LevelOption ''debug'']) = None \<and>
   fst (NewClientConfig sampleEnv ''tcp://localhost:26657'' ''localhost:9090'' ''irishub-1''
          [AlgoOption ''sm2'', GasOption 0, LevelOption ''debug'']) =
   fst (NewClientConfig sampleEnv ''tcp://localhost:26657'' ''localhost:9090'' ''irishub-1''
          [AlgoOption ''sm2'', LevelOption ''debug'']) \<and>
   Gas (fst (NewClientConfig sampleEnv ''tcp://localhost:26657'' ''localhost:9090'' ''irishub-1''
          [AlgoOption ''sm2'', GasOption 0, LevelOption ''debug''])) = 200000"
proof -
  have falsy: "falsyOptionFor sampleEnv (GasOption 0) (independentOf Gas_update)
                 (\<lambda>cfg. Gas cfg = defaultGas)"
    by (rule falsyGas) simp
  have others: "\<forall>other\<in>set [AlgoOption ''sm2''] \<union> set [LevelOption ''debug''].
                  independentOf Gas_update other"
    by (simp add: options_independent_of_Gas)
  have ok: "snd (NewClientConfig sampleEnv ''tcp://localhost:26657'' ''localhost:9090'' ''irishub-1''
          [AlgoOption ''sm2'', GasOption 0, LevelOption ''debug'']) = None"
    by (simp add: NewClientConfig_unfold AlgoOption_def GasOption_def LevelOption_def
        checkAndSetDefault_error initialConfig_def zeroClientConfig_def sampleEnv_def)
  note same = falsy_option_same_as_absent [OF falsy others,
        where uri = "''tcp://localhost:26657''" and grpcAddr = "''localhost:9090''"
        and chainID = "''irishub-1''"]
  have eq: "fst (NewClientConfig sampleEnv ''tcp://localhost:26657'' ''localhost:9090'' ''irishub-1''
          [AlgoOption ''sm2'', GasOption 0, LevelOption ''debug'']) =
        fst (NewClientConfig sampleEnv ''tcp://localhost:26657'' ''localhost:9090'' ''irishub-1''
          [AlgoOption ''sm2'', LevelOption ''debug''])"
    using same [THEN conjunct1] by simp
  have gas: "Gas (fst (NewClientConfig sampleEnv ''tcp://localhost:26657'' ''localhost:9090''
          ''irishub-1'' [AlgoOption ''sm2'', GasOption 0, LevelOption ''debug''])) = defaultGas"
    using same [THEN conjunct2, THEN conjunct2] ok by simp
  show ?thesis
    by (intro conjI) (fact ok, fact eq, simp add: gas defaultGas_def)
qed

text \<open>
  Claim C6. The project identity given to \<open>BSNProjectInfoOption\<close> anywhere in the option
  list (the later options independent of the field) is the \<open>BSNProject\<close> of the
  configuration on success, and whether the constructor fails, and with which error,
  does not depend on the identity: empty identity fields never make it fail.
\<close>

theorem project_identity_copied:
  assumes after: "\<forall>later\<in>set after. independentOf BSNProject_update later"
  shows "snd (NewClientConfig env uri grpcAddr chainID (before @ BSNProjectInfoOption info # after)) =
         snd (NewClientConfig env uri grpcAddr chainID (before @ BSNProjectInfoOption info' # after)) \<and>
         (snd (NewClientConfig env uri grpcAddr chainID
                 (before @ BSNProjectInfoOption info # after)) = None \<longrightarrow>
          BSNProject (fst (NewClientConfig env uri grpcAddr chainID
                 (before @ BSNProjectInfoOption info # after))) = info)"
proof (cases "snd (applyOptions before (initialConfig uri grpcAddr chainID))")
  case (Some err)
  have "\<And>i. snd (applyOptions (before @ BSNProjectInfoOption i # after)
                 (initialConfig uri grpcAddr chainID)) = Some err"
    using applyOptions_append_err [OF Some] Some by simp
  then show ?thesis by (simp add: NewClientConfig_unfold)
next
  case None
  let ?r = "applyOptions (before @ after) (initialConfig uri grpcAddr chainID)"
  have ins: "\<And>i. applyOptions (before @ BSNProjectInfoOption i # after)
                 (initialConfig uri grpcAddr chainID) = ((fst ?r)\<lparr>BSNProject := i\<rparr>, snd ?r)"
    using applyOptions_insert_ok [OF None _ after] by (simp add: BSNProjectInfoOption_apply)
  have errs: "snd (NewClientConfig env uri grpcAddr chainID (before @ BSNProjectInfoOption info # after)) =
         snd (NewClientConfig env uri grpcAddr chainID (before @ BSNProjectInfoOption info' # after))"
    by (simp add: NewClientConfig_unfold ins checkAndSetDefault_error_BSNProject del: not_None_eq)
  have copied: "BSNProject (fst (NewClientConfig env uri grpcAddr chainID
                 (before @ BSNProjectInfoOption info # after))) = info"
    if ok: "snd (NewClientConfig env uri grpcAddr chainID
                 (before @ BSNProjectInfoOption info # after)) = None"
  proof -
    let ?b = "NewClientConfig env uri grpcAddr chainID (before @ BSNProjectInfoOption info # after)"
    have built: "?b = (fst ?b, None)"
      using ok by (simp add: prod_eq_iff)
    have chk: "checkAndSetDefault env ((fst ?r)\<lparr>BSNProject := info\<rparr>) = (fst ?b, None)"
      using NewClientConfig_success [OF built] by (simp add: ins)
    show ?thesis using checkAndSetDefault_success [OF chk] by simp
  qed
  show ?thesis using errs copied by simp
qed

theorem project_identity_copied_witness:
  "snd (NewClientConfig sampleEnv ''tcp://localhost:26657'' ''localhost:9090'' ''irishub-1''
          [AlgoOption ''sm2'',
           BSNProjectInfoOption \<lparr>ProjectId = [], ProjectKey = ''key-1'', ChainAccountAddress = []\<rparr>,
           GasOption 9]) = None \<and>
   BSNProject
     (fst (NewClientConfig sampleEnv ''tcp://localhost:26657'' ''localhost:9090'' ''irishub-1''
          [AlgoOption ''sm2'',
           BSNProjectInfoOption \<lparr>ProjectId = [], ProjectKey = ''key-1'', ChainAccountAddress = []\<rparr>,
           GasOption 9])) =
     \<lparr>ProjectId = [], ProjectKey = ''key-1'', ChainAccountAddress = []\<rparr>"
proof -
  let ?info = "\<lparr>ProjectId = [], ProjectKey = ''key-1'', ChainAccountAddress = []\<rparr>"
  let ?build = "NewClientConfig sampleEnv ''tcp://localhost:26657'' ''localhost:9090'' ''irishub-1''
          ([AlgoOption ''sm2''] @ BSNProjectInfoOption ?info # [GasOption 9])"
  have after: "\<forall>later\<in>set [GasOption 9]. independentOf BSNProject_update later"
    by (simp add: independentOf_def GasOption_def)
  have ok: "snd ?build = None"
    by (simp add: NewClientConfig_unfold AlgoOption_def BSNProjectInfoOption_def GasOption_def
        checkAndSetDefault_error initialConfig_def zeroClientConfig_def sampleEnv_def)
  show ?thesis
    using ok project_identity_copied [OF after, where before = "[AlgoOption ''sm2'']"
        and info = ?info and info' = ?info and env = sampleEnv
        and uri = "''tcp://localhost:26657''" and grpcAddr = "''localhost:9090''"
        and chainID = "''irishub-1''"]
    by simp
qed

text \<open>
  Claim C7 against the code. The claim describes the credential provider attached to the
  connection after the first successful creation. No creation succeeds: whatever the
  network, the URL and the identity, the first call of the process panics with the
  library's \<open>errTransportCredentialsMissing\<close>, because the options ask for an insecure
  connection together with a token that requires transport security. After it and any
  later calls one dial was made, no connection exists, \<open>GenConn\<close> gives the nil pointer
  and no credential provider is attached to anything. The token itself is as the claim
  says: it returns the three entries of the identity.
\<close>

theorem first_creation_never_succeeds:
  "fst (NewGRPCClient (checkedDialer network) url info initialProcess) =
     Panicked errTransportCredentialsMissing \<and>
   dialAttempts (bootstrapCalls (checkedDialer network) ((url, info) # calls) initialProcess) = 1 \<and>
   conns (bootstrapCalls (checkedDialer network) ((url, info) # calls) initialProcess) = [] \<and>
   GenConn g (bootstrapCalls (checkedDialer network) ((url, info) # calls) initialProcess) =
     (None, None) \<and>
   perRPCCredentials (bootstrapCalls (checkedDialer network) ((url, info) # calls) initialProcess)
     (fst (GenConn g (bootstrapCalls (checkedDialer network) ((url, info) # calls) initialProcess))) =
     [] \<and>
   fst (GetRequestMetadata
          \<lparr>projectId = ProjectId info, projectKey = ProjectKey info,
           chainAccountAddr = ChainAccountAddress info\<rparr> ctx uri) =
     [''projectId'' \<mapsto> ProjectId info, ''projectKey'' \<mapsto> ProjectKey info,
      ''chainAccountAddress'' \<mapsto> ChainAccountAddress info]"
proof -
  let ?dialer = "checkedDialer network"
  have fresh: "\<not> once initialProcess"
    by (simp add: initialProcess_def)
  have rejects: "?dialer (dialAttempts initialProcess) url
       [WithInsecure, WithPerRPCCredentials \<lparr>projectId = ProjectId info, projectKey = ProjectKey info,
                                 chainAccountAddr = ChainAccountAddress info\<rparr>] =
     Some errTransportCredentialsMissing"
    by (rule checkedDialer_rejects)
  have first: "NewGRPCClient ?dialer url info initialProcess =
     (Panicked errTransportCredentialsMissing,
      initialProcess\<lparr>once := True, dialAttempts := dialAttempts initialProcess + 1,
        errorLog := errorLog initialProcess @ [Error errTransportCredentialsMissing]\<rparr>)"
    using fresh rejects
      NewGRPCClient_first_fail [of initialProcess ?dialer url info errTransportCredentialsMissing]
    by simp
  have later: "bootstrapCalls ?dialer ((url, info) # calls) initialProcess =
     initialProcess\<lparr>once := True, dialAttempts := dialAttempts initialProcess + 1,
        errorLog := errorLog initialProcess @ [Error errTransportCredentialsMissing]\<rparr>"
    by (simp add: first bootstrapCalls_done)
  have token: "fst (GetRequestMetadata
          \<lparr>projectId = ProjectId info, projectKey = ProjectKey info,
           chainAccountAddr = ChainAccountAddress info\<rparr> ctx uri) =
     [''projectId'' \<mapsto> ProjectId info, ''projectKey'' \<mapsto> ProjectKey info,
      ''chainAccountAddress'' \<mapsto> ChainAccountAddress info]"
    using metadata_three_entries
      [of "\<lparr>projectId = ProjectId info, projectKey = ProjectKey info,
            chainAccountAddr = ChainAccountAddress info\<rparr>" ctx uri]
    by simp
  show ?thesis
    unfolding later first
    using token by (simp add: GenConn_def perRPCCredentials_def initialProcess_def)
qed

text \<open>
  Claim C8 against the code. For any number of callers of the same URL, over any network,
  in any interleaving, and whether or not the callers recover from a panic:
  \<^verbatim>\<open>grpc.Dial\<close> is called at most once, and exactly once as soon as one caller has left
  \<^verbatim>\<open>once.Do\<close>; but that dial is rejected by the library, so no connection ever exists,
  the shared pointer stays nil, no caller gets as far as storing a connection, every
  handle that \<open>GenConn\<close> returns is nil, and one caller at most, the one that ran the
  body, panics, with \<open>errTransportCredentialsMissing\<close>. When one caller or more have run
  until none can move, one of them has left the call with that panic; if the panic was
  recovered from, every other caller holds the nil pointer.
\<close>

theorem no_caller_obtains_connection:
  assumes reach: "reachable recovered (checkedDialer network) K url ident g"
  shows "dialAttempts (shared g) \<le> 1 \<and>
         (\<forall>i. pastOnce (callers g i) \<longrightarrow> dialAttempts (shared g) = 1) \<and>
         conns (shared g) = [] \<and>
         clientConnSingleton (shared g) = None \<and>
         (\<forall>i. callers g i \<noteq> Stored) \<and>
         (\<forall>i handle. callers g i = GotConn handle \<longrightarrow> handle = None) \<and>
         (\<forall>i e. callers g i = Crashed e \<longrightarrow> e = errTransportCredentialsMissing) \<and>
         (\<forall>i j e e'. callers g i = Crashed e \<and> callers g j = Crashed e' \<longrightarrow> i = j) \<and>
         (0 < K \<and> (\<forall>i<K. advance recovered (checkedDialer network) url ident i g = None) \<longrightarrow>
            (\<exists>i<K. callers g i = Crashed errTransportCredentialsMissing) \<and>
            (recovered \<longrightarrow>
               (\<forall>i<K. callers g i = Crashed errTransportCredentialsMissing \<or>
                       callers g i = GotConn None)))"
proof -
  note inv = reachable_onceInvariant [OF reach]
  note rej = reachable_rejectedInvariant [OF reach]
  have dials: "dialAttempts (shared g) \<le> 1"
    using inv_dials [OF inv] by (simp split: option.splits)
  have exactly: "dialAttempts (shared g) = 1" if "pastOnce (callers g i)" for i
    using inv_dials [OF inv] inv_past [OF inv that] by simp
  have stored: "callers g i \<noteq> Stored" for i
    using rej_pc [OF rej, of i] by auto
  have handle: "handle = None" if "callers g i = GotConn handle" for i handle
    using inv_handle [OF inv that] rej_handle [OF rej] by simp
  have panic: "e = errTransportCredentialsMissing" if "callers g i = Crashed e" for i e
    using rej_pc [OF rej, of i] that by simp
  have single: "i = j" if "callers g i = Crashed e" "callers g j = Crashed e'" for i j e e'
    using rej_single [OF rej, of i j] that by simp
  have crashed: "\<exists>i<K. callers g i = Crashed errTransportCredentialsMissing"
    if "0 < K" "\<forall>i<K. advance recovered (checkedDialer network) url ident i g = None"
    using quiescent_crashed [OF inv rej that(2) that(1)] .
  have nil: "callers g i = Crashed errTransportCredentialsMissing \<or> callers g i = GotConn None"
    if "\<forall>i<K. advance recovered (checkedDialer network) url ident i g = None" "recovered" "i < K"
    for i
    using quiescent_nil [OF inv rej that] .
  show ?thesis
    using dials exactly rej_conns [OF rej] rej_handle [OF rej] stored handle panic single
      crashed nil
    by blast
qed

theorem no_caller_obtains_connection_witness:
  "reachable True (checkedDialer openNetwork) 3 ''localhost:9090'' sampleIdentities
     (run True (checkedDialer openNetwork) ''localhost:9090'' sampleIdentities sampleSchedule
        initialGoroutines) \<and>
   advance True (checkedDialer openNetwork) ''localhost:9090'' sampleIdentities 0
     (run True (checkedDialer openNetwork) ''localhost:9090'' sampleIdentities sampleSchedule
        initialGoroutines) = None \<and>
   advance True (checkedDialer openNetwork) ''localhost:9090'' sampleIdentities 1
     (run True (checkedDialer openNetwork) ''localhost:9090'' sampleIdentities sampleSchedule
        initialGoroutines) = None \<and>
   advance True (checkedDialer openNetwork) ''localhost:9090'' sampleIdentities 2
     (run True (checkedDialer openNetwork) ''localhost:9090'' sampleIdentities sampleSchedule
        initialGoroutines) = None \<and>
   dialAttempts
     (shared (run True (checkedDialer openNetwork) ''localhost:9090'' sampleIdentities
                sampleSchedule initialGoroutines)) = 1 \<and>
   conns
     (shared (run True (checkedDialer openNetwork) ''localhost:9090'' sampleIdentities
                sampleSchedule initialGoroutines)) = [] \<and>
   callers (run True (checkedDialer openNetwork) ''localhost:9090'' sampleIdentities
              sampleSchedule initialGoroutines) 0 = Crashed errTransportCredentialsMissing \<and>
   callers (run True (checkedDialer openNetwork) ''localhost:9090'' sampleIdentities
              sampleSchedule initialGoroutines) 1 = GotConn None \<and>
   callers (run True (checkedDialer openNetwork) ''localhost:9090'' sampleIdentities
              sampleSchedule initialGoroutines) 2 = GotConn None \<and>
   exited (run False (checkedDialer openNetwork) ''localhost:9090'' sampleIdentities
             sampleSchedule initialGoroutines) \<and>
   callers (run False (checkedDialer openNetwork) ''localhost:9090'' sampleIdentities
              sampleSchedule initialGoroutines) 0 = Crashed errTransportCredentialsMissing \<and>
   callers (run False (checkedDialer openNetwork) ''localhost:9090'' sampleIdentities
              sampleSchedule initialGoroutines) 1 = Waiting \<and>
   callers (run False (checkedDialer openNetwork) ''localhost:9090'' sampleIdentities
              sampleSchedule initialGoroutines) 2 = Waiting"
proof -
  let ?G = "run True (checkedDialer openNetwork) ''localhost:9090'' sampleIdentities
              sampleSchedule initialGoroutines"
  let ?H = "run False (checkedDialer openNetwork) ''localhost:9090'' sampleIdentities
              sampleSchedule initialGoroutines"
  have reach: "reachable True (checkedDialer openNetwork) 3 ''localhost:9090'' sampleIdentities ?G"
    by (rule reachable_run [OF reachable.start]) (simp add: sampleSchedule_def)
  have stopped: "advance True (checkedDialer openNetwork) ''localhost:9090'' sampleIdentities 0 ?G = None"
    "advance True (checkedDialer openNetwork) ''localhost:9090'' sampleIdentities 1 ?G = None"
    "advance True (checkedDialer openNetwork) ''localhost:9090'' sampleIdentities 2 ?G = None"
    by (simp_all add: sampleSchedule_def advance_def initialGoroutines_def initialProcess_def
        grpc_Dial_rejected GenConn_def)
  have three: "i = 0 \<or> i = 1 \<or> i = 2" if "i < 3" for i :: nat
    using that by arith
  have quiet: "\<forall>i<3. advance True (checkedDialer openNetwork) ''localhost:9090'' sampleIdentities i ?G = None"
    using stopped three by blast
  have first: "callers ?G 0 = Crashed errTransportCredentialsMissing"
    by (simp add: sampleSchedule_def advance_def initialGoroutines_def initialProcess_def
        grpc_Dial_rejected GenConn_def)
  note all = no_caller_obtains_connection [OF reach]
  note from_2 = all [THEN conjunct2]
  note from_3 = from_2 [THEN conjunct2]
  note from_8 = from_3 [THEN conjunct2, THEN conjunct2, THEN conjunct2, THEN conjunct2,
      THEN conjunct2]
  have "pastOnce (callers ?G 0)"
    using first by simp
  then have dials: "dialAttempts (shared ?G) = 1"
    using from_2 [THEN conjunct1] by blast
  have none: "conns (shared ?G) = []"
    using from_3 [THEN conjunct1] .
  have "0 < (3::nat)"
    by simp
  then have rest: "\<forall>i<3. callers ?G i = Crashed errTransportCredentialsMissing \<or>
                     callers ?G i = GotConn None"
    using from_8 [THEN conjunct2] quiet by blast
  have single: "i = 0" if "callers ?G i = Crashed errTransportCredentialsMissing" for i
    using from_8 [THEN conjunct1, rule_format,
        of i errTransportCredentialsMissing 0 errTransportCredentialsMissing] first that
    by simp
  have "callers ?G 1 = Crashed errTransportCredentialsMissing \<or> callers ?G 1 = GotConn None"
    using rest [rule_format, of 1] by simp
  moreover have "callers ?G 2 = Crashed errTransportCredentialsMissing \<or>
                 callers ?G 2 = GotConn None"
    using rest [rule_format, of 2] by simp
  ultimately have others: "callers ?G 1 = GotConn None" "callers ?G 2 = GotConn None"
    using single [of 1] single [of 2] by auto
  have ended: "exited ?H" "callers ?H 0 = Crashed errTransportCredentialsMissing"
    "callers ?H 1 = Waiting" "callers ?H 2 = Waiting"
    by (simp_all add: sampleSchedule_def advance_def initialGoroutines_def initialProcess_def
        grpc_Dial_rejected GenConn_def)
  show ?thesis
    by (intro conjI) (fact reach stopped dials none first others ended)+
qed

text \<open>
  Claim C9. When the dial of the first call fails, that call panics with the error of the
  dial after exactly one attempt and without storing a connection; every later call
  returns normally without dialing again, and \<open>GenConn\<close> then gives a nil connection and a
  nil error: the failure is not handed out a second time.
\<close>

theorem failed_dial_surfaces_once:
  assumes fresh: "\<not> once s"
      and none: "clientConnSingleton s = None"
      and fails: "dialer (dialAttempts s) url
                    [WithInsecure,
                     WithPerRPCCredentials \<lparr>projectId = ProjectId info, projectKey = ProjectKey info,
                       chainAccountAddr = ChainAccountAddress info\<rparr>] = Some e"
  shows "fst (NewGRPCClient dialer url info s) = Panicked e \<and>
         dialAttempts (snd (NewGRPCClient dialer url info s)) = dialAttempts s + 1 \<and>
         conns (snd (NewGRPCClient dialer url info s)) = conns s \<and>
         clientConnSingleton (snd (NewGRPCClient dialer url info s)) = None \<and>
         NewGRPCClient dialer url' info' (snd (NewGRPCClient dialer url info s)) =
           (Returned GrpcClient, snd (NewGRPCClient dialer url info s)) \<and>
         bootstrapCalls dialer calls (snd (NewGRPCClient dialer url info s)) =
           snd (NewGRPCClient dialer url info s) \<and>
         GenConn g (bootstrapCalls dialer calls (snd (NewGRPCClient dialer url info s))) =
           (None, None)"
proof -
  have first: "NewGRPCClient dialer url info s =
     (Panicked e,
      s\<lparr>once := True, dialAttempts := dialAttempts s + 1, errorLog := errorLog s @ [Error e]\<rparr>)"
    using fresh fails NewGRPCClient_first_fail [of s dialer url info e] by simp
  show ?thesis
    unfolding first using none
    by (simp add: NewGRPCClient_done bootstrapCalls_done GenConn_def)
qed

theorem failed_dial_surfaces_once_witness:
  "fst (NewGRPCClient refusingDialer ''localhost:9090'' firstIdentity initialProcess) =
     Panicked (ExternalError ''connection refused'') \<and>
   dialAttempts
     (bootstrapCalls refusingDialer [(''localhost:9090'', firstIdentity), (''elsewhere:9090'', secondIdentity)]
       (snd (NewGRPCClient refusingDialer ''localhost:9090'' firstIdentity initialProcess))) = 1 \<and>
   GenConn GrpcClient
     (bootstrapCalls refusingDialer [(''localhost:9090'', firstIdentity), (''elsewhere:9090'', secondIdentity)]
       (snd (NewGRPCClient refusingDialer ''localhost:9090'' firstIdentity initialProcess))) =
     (None, None)"
proof -
  have fresh: "\<not> once initialProcess" and none: "clientConnSingleton initialProcess = None"
    by (simp_all add: initialProcess_def)
  have fails: "refusingDialer (dialAttempts initialProcess) ''localhost:9090''
                 [WithInsecure,
                  WithPerRPCCredentials \<lparr>projectId = ProjectId firstIdentity,
                    projectKey = ProjectKey firstIdentity,
                    chainAccountAddr = ChainAccountAddress firstIdentity\<rparr>] =
               Some (ExternalError ''connection refused'')"
    by (simp add: refusingDialer_def)
  have start: "dialAttempts initialProcess = 0"
    by (simp add: initialProcess_def)
  note failed = failed_dial_surfaces_once [where s = initialProcess and dialer = refusingDialer
        and url = "''localhost:9090''" and info = firstIdentity
        and e = "ExternalError ''connection refused''"
        and calls = "[(''localhost:9090'', firstIdentity), (''elsewhere:9090'', secondIdentity)]"
        and g = GrpcClient and url' = "''elsewhere:9090''" and info' = secondIdentity,
        OF fresh none fails]
  show ?thesis
    using failed start by (simp add: GenConn_def)
qed

text \<open>
  Claim C10. \<open>GenConn\<close> returns the shared connection pointer and a nil error in every
  process state; in the initial state, where no connection was made, the pointer is nil.
\<close>

theorem GenConn_never_errors:
  "GenConn g s = (clientConnSingleton s, None) \<and> GenConn g initialProcess = (None, None)"
  by (simp add: GenConn_def initialProcess_def)

end
